theory Spec2Isabelle
  imports Complex_Main "HOL-Library.Word" "HOL-Library.AList"
begin

unbundle bit_operations_syntax

section \<open>Single-precision values\<close>

text \<open>
  The module instantiates every template at \<open>float\<close>.  A \<open>float\<close> is kept as its
  IEEE-754 binary32 bit pattern: one sign bit, eight exponent bits, 23 fraction bits.
  Only the classification of a value (\<open>std::isnan\<close>, \<open>std::isfinite\<close>, the
  conversion to \<open>bool\<close>) is defined on the bits; the rounding arithmetic is supplied
  from outside (records \<open>platform\<close> and \<open>arith\<close> below).
\<close>

datatype float = Float (bits: "32 word")

definition exponent :: "float \<Rightarrow> nat" where
  "exponent x = (unat (bits x) div 2 ^ 23) mod 2 ^ 8"

definition fraction :: "float \<Rightarrow> nat" where
  "fraction x = unat (bits x) mod 2 ^ 23"

definition isnan :: "float \<Rightarrow> bool" where
  "isnan x = (exponent x = 255 \<and> fraction x \<noteq> 0)"

definition isinf :: "float \<Rightarrow> bool" where
  "isinf x = (exponent x = 255 \<and> fraction x = 0)"

definition isfinite :: "float \<Rightarrow> bool" where
  "isfinite x = (exponent x \<noteq> 255)"

text \<open>A \<open>float\<close> used as a condition is true unless it is \<open>+0\<close> or \<open>-0\<close>.\<close>

definition float_to_bool :: "float \<Rightarrow> bool" where
  "float_to_bool x = (\<not> (exponent x = 0 \<and> fraction x = 0))"

text \<open>The literals of the module: \<open>0.0f\<close>, \<open>1.0f\<close>, \<open>4.0f\<close>, \<open>30.0f\<close> and
  \<open>M_SQRT1_2\<close> rounded to \<open>float\<close>; and the two infinities and a quiet NaN.\<close>

definition f_0 :: float where "f_0 = Float 0x00000000"

definition f_1 :: float where "f_1 = Float 0x3F800000"

definition f_4 :: float where "f_4 = Float 0x40800000"

definition f_30 :: float where "f_30 = Float 0x41F00000"

definition f_SQRT1_2 :: float where "f_SQRT1_2 = Float 0x3F3504F3"

definition f_inf :: float where "f_inf = Float 0x7F800000"

definition f_nan :: float where "f_nan = Float 0x7FC00000"

instantiation float :: zero
begin
definition zero_float :: float where "zero_float = Float 0"
instance ..
end

section \<open>Layers and the inference model\<close>

text \<open>
  Modelled from the spec: the layer classes \<open>MLUtils::Dense\<close>,
  \<open>MLUtils::TanhActivation\<close>, \<open>MLUtils::GRULayer\<close> and the container
  \<open>MLUtils::Model\<close> are used by the module but defined in a library that is not among
  the sources.  Their data follows section 3 of the specification: every layer has a fixed
  input and output width; an affine layer owns a weight matrix (out x in, a list of rows)
  and a bias vector (out); the recurrent layer owns three input matrices, three recurrent
  matrices, three biases and the persistent hidden state.  The scalar type is a
  parameter, as it is a template parameter in the code.
\<close>

record Layer_base =
  in_size :: nat
  out_size :: nat

record 'a Dense = Layer_base +
  dense_W :: "'a list list"
  dense_b :: "'a list"

record 'a GRULayer = Layer_base +
  W_r :: "'a list list"
  W_z :: "'a list list"
  W_n :: "'a list list"
  U_r :: "'a list list"
  U_z :: "'a list list"
  U_n :: "'a list list"
  b_r :: "'a list"
  b_z :: "'a list"
  b_n :: "'a list"
  gru_h :: "'a list"

datatype 'a Layer = LDense "'a Dense" | LTanh nat | LGRU "'a GRULayer"

record 'a Model =
  model_in_size :: nat
  layers :: "'a Layer list"

text \<open>
  Modelled from the spec: tensors are allocated once, at construction, with a fixed
  shape; nothing is said about their initial content, so a constructor takes the content
  of the memory it is given (\<open>mem\<close>, indexed by element) and lays the tensors out in it.
\<close>

definition alloc_vec :: "(nat \<Rightarrow> 'a) \<Rightarrow> nat \<Rightarrow> nat \<Rightarrow> 'a list" where
  "alloc_vec mem off n = map (\<lambda>i. mem (off + i)) [0..<n]"

definition alloc_mat :: "(nat \<Rightarrow> 'a) \<Rightarrow> nat \<Rightarrow> nat \<Rightarrow> nat \<Rightarrow> 'a list list" where
  "alloc_mat mem off rows cols = map (\<lambda>r. alloc_vec mem (off + r * cols) cols) [0..<rows]"

definition new_Dense :: "(nat \<Rightarrow> 'a) \<Rightarrow> nat \<Rightarrow> nat \<Rightarrow> 'a Dense" where
  "new_Dense mem i out =
     \<lparr>in_size = i, out_size = out,
      dense_W = alloc_mat mem 0 out i,
      dense_b = alloc_vec mem (out * i) out\<rparr>"

definition new_GRULayer :: "(nat \<Rightarrow> 'a) \<Rightarrow> nat \<Rightarrow> nat \<Rightarrow> 'a GRULayer" where
  "new_GRULayer mem i out =
     (let w = out * i; u = out * out in
      \<lparr>in_size = i, out_size = out,
       W_r = alloc_mat mem 0 out i,
       W_z = alloc_mat mem w out i,
       W_n = alloc_mat mem (2 * w) out i,
       U_r = alloc_mat mem (3 * w) out out,
       U_z = alloc_mat mem (3 * w + u) out out,
       U_n = alloc_mat mem (3 * w + 2 * u) out out,
       b_r = alloc_vec mem (3 * w + 3 * u) out,
       b_z = alloc_vec mem (3 * w + 3 * u + out) out,
       b_n = alloc_vec mem (3 * w + 3 * u + 2 * out) out,
       gru_h = alloc_vec mem (3 * w + 3 * u + 3 * out) out\<rparr>)"

definition Model_new :: "nat \<Rightarrow> 'a Model" where
  "Model_new n = \<lparr>model_in_size = n, layers = []\<rparr>"

text \<open>Modelled from the spec: a model is an ordered pipeline; \<open>addLayer\<close> appends.\<close>

definition addLayer :: "'a Model \<Rightarrow> 'a Layer \<Rightarrow> 'a Model" where
  "addLayer m l = m\<lparr>layers := layers m @ [l]\<rparr>"

text \<open>
  Modelled from the spec: \<open>reset\<close> of the recurrent layer sets the hidden state to the
  zero vector; the other layers have no state; \<open>Model.reset\<close> resets every layer in
  order.
\<close>

definition GRU_reset :: "'a::zero GRULayer \<Rightarrow> 'a GRULayer" where
  "GRU_reset g = g\<lparr>gru_h := replicate (out_size g) 0\<rparr>"

fun Layer_reset :: "'a::zero Layer \<Rightarrow> 'a Layer" where
  "Layer_reset (LGRU g) = LGRU (GRU_reset g)"
| "Layer_reset l = l"

definition Model_reset :: "'a::zero Model \<Rightarrow> 'a Model" where
  "Model_reset m = m\<lparr>layers := map Layer_reset (layers m)\<rparr>"

section \<open>The weight randomiser\<close>

text \<open>
  Modelled from the spec: \<open>LayerRandomiser\<close> (LayerRandomiser.hpp is not among the
  sources).  Each operation overwrites every element of the tensors it names with a
  fresh draw, in place, and touches nothing else; \<open>zeroDenseBias\<close> sets every element
  of the bias to 0.  The generator is the sequence of the draws it has yet to produce;
  drawing \<open>n\<close> values consumes the first \<open>n\<close>.
\<close>

type_synonym LayerRandomiser = "nat \<Rightarrow> float"

definition skip :: "nat \<Rightarrow> LayerRandomiser \<Rightarrow> LayerRandomiser" where
  "skip n rng = (\<lambda>i. rng (n + i))"

definition random_vec :: "LayerRandomiser \<Rightarrow> float list \<Rightarrow> float list \<times> LayerRandomiser" where
  "random_vec rng v = (map rng [0..<length v], skip (length v) rng)"

fun random_mat :: "LayerRandomiser \<Rightarrow> float list list \<Rightarrow> float list list \<times> LayerRandomiser" where
  "random_mat rng [] = ([], rng)"
| "random_mat rng (row # rows) =
     (let (row', rng1) = random_vec rng row;
          (rows', rng2) = random_mat rng1 rows
      in (row' # rows', rng2))"

definition randomDenseWeights :: "LayerRandomiser \<Rightarrow> float Dense \<Rightarrow> float Dense \<times> LayerRandomiser" where
  "randomDenseWeights rng d =
     (let (w', rng') = random_mat rng (dense_W d) in (d\<lparr>dense_W := w'\<rparr>, rng'))"

definition randomDenseBias :: "LayerRandomiser \<Rightarrow> float Dense \<Rightarrow> float Dense \<times> LayerRandomiser" where
  "randomDenseBias rng d =
     (let (b', rng') = random_vec rng (dense_b d) in (d\<lparr>dense_b := b'\<rparr>, rng'))"

definition zeroDenseBias :: "float Dense \<Rightarrow> float Dense" where
  "zeroDenseBias d = d\<lparr>dense_b := map (\<lambda>_. 0) (dense_b d)\<rparr>"

definition randomGRU :: "LayerRandomiser \<Rightarrow> float GRULayer \<Rightarrow> float GRULayer \<times> LayerRandomiser" where
  "randomGRU rng g =
     (let (wr, rng1) = random_mat rng (W_r g);
          (wz, rng2) = random_mat rng1 (W_z g);
          (wn, rng3) = random_mat rng2 (W_n g);
          (ur, rng4) = random_mat rng3 (U_r g);
          (uz, rng5) = random_mat rng4 (U_z g);
          (un, rng6) = random_mat rng5 (U_n g);
          (br, rng7) = random_vec rng6 (b_r g);
          (bz, rng8) = random_vec rng7 (b_z g);
          (bn, rng9) = random_vec rng8 (b_n g)
      in (g\<lparr>W_r := wr, W_z := wz, W_n := wn, U_r := ur, U_z := uz, U_n := un,
             b_r := br, b_z := bz, b_n := bn\<rparr>, rng9))"

section \<open>The module\<close>

datatype ParamIds = RANDOM_PARAM

datatype InputIds = IN1 | IN2 | IN3 | IN4

datatype OutputIds = OUT1

definition NUM_INPUTS :: nat where "NUM_INPUTS = 4"

definition NDims :: nat where "NDims = 4"

text \<open>The input ports in index order, \<open>0 .. NUM_INPUTS - 1\<close>.\<close>

definition input_ids :: "InputIds list" where
  "input_ids = [IN1, IN2, IN3, IN4]"

text \<open>
  The private members of \<open>struct ChowRNN\<close>.  The state of the post-filter
  (\<open>dsp::BiquadFilter\<close>, a class of the host) is a type parameter.  The ports and
  parameters belong to the host's base class: \<open>process\<close> receives what they hold and
  returns the voltage it writes.
\<close>

record 'f ChowRNN =
  model :: "float Model"
  rando :: LayerRandomiser
  dcBlocker :: 'f

definition set_layer :: "'a Model \<Rightarrow> nat \<Rightarrow> 'a Layer \<Rightarrow> 'a Model" where
  "set_layer m k l = m\<lparr>layers := (layers m)[k := l]\<rparr>"

text \<open>
  The constructor: four \<open>addLayer\<close> calls, \<open>model.reset()\<close>, then
  \<open>zeroDenseBias\<close> on \<open>model.layers.back()\<close> cast to a dense layer.  \<open>heap k\<close> is the
  memory the \<open>k\<close>-th weight-bearing layer is allocated in; \<open>rng\<close> and \<open>bq\<close> are the
  default-constructed generator and filter.
\<close>

definition ChowRNN_new :: "(nat \<Rightarrow> nat \<Rightarrow> float) \<Rightarrow> LayerRandomiser \<Rightarrow> 'f \<Rightarrow> 'f ChowRNN" where
  "ChowRNN_new heap rng bq =
     (let m0 = Model_new NDims;
          m1 = addLayer m0 (LDense (new_Dense (heap 0) NDims NDims));
          m2 = addLayer m1 (LTanh NDims);
          m3 = addLayer m2 (LGRU (new_GRULayer (heap 1) NDims NDims));
          m4 = addLayer m3 (LDense (new_Dense (heap 2) NDims 1));
          m5 = Model_reset m4;
          m6 = (case last (layers m5) of
                  LDense d \<Rightarrow> set_layer m5 (length (layers m5) - 1) (LDense (zeroDenseBias d))
                | _ \<Rightarrow> m5)
      in \<lparr>model = m6, rando = rng, dcBlocker = bq\<rparr>)"

text \<open>
  \<open>randomiseModel\<close>: each \<open>dynamic_cast\<close> that succeeds selects its branch; a cast that
  fails skips it.
\<close>

definition randomiseModel :: "'f ChowRNN \<Rightarrow> 'f ChowRNN" where
  "randomiseModel s =
     (let s1 = (case layers (model s) ! 0 of
                  LDense denseLayer \<Rightarrow>
                    (let (d1, rng1) = randomDenseWeights (rando s) denseLayer;
                         (d2, rng2) = randomDenseBias rng1 d1
                     in s\<lparr>model := set_layer (model s) 0 (LDense d2), rando := rng2\<rparr>)
                | _ \<Rightarrow> s);
          s2 = (case layers (model s1) ! 2 of
                  LGRU gruLayer \<Rightarrow>
                    (let (g1, rng1) = randomGRU (rando s1) gruLayer
                     in s1\<lparr>model := set_layer (model s1) 2 (LGRU g1), rando := rng1\<rparr>)
                | _ \<Rightarrow> s1);
          s3 = (case layers (model s2) ! 3 of
                  LDense denseLayer \<Rightarrow>
                    (let (d1, rng1) = randomDenseWeights (rando s2) denseLayer
                     in s2\<lparr>model := set_layer (model s2) 3 (LDense d1), rando := rng1\<rparr>)
                | _ \<Rightarrow> s2)
      in s3)"

text \<open>
  What \<open>process\<close> uses and the sources do not define: \<open>Model::forward\<close> (the
  library's), the two calls on the host's biquad filter, and the rounding arithmetic of
  \<open>float\<close>.  They are parameters of \<open>process\<close>; every theorem about \<open>process\<close> holds
  for all of them.
\<close>

datatype BiquadType = HIGHPASS

record 'f platform =
  forward :: "float Model \<Rightarrow> float list \<Rightarrow> float \<times> float Model"
  setParameters :: "BiquadType \<Rightarrow> float \<Rightarrow> float \<Rightarrow> float \<Rightarrow> 'f \<Rightarrow> 'f"
  bq_process :: "'f \<Rightarrow> float \<Rightarrow> float \<times> 'f"
  fmul :: "float \<Rightarrow> float \<Rightarrow> float"
  fdiv :: "float \<Rightarrow> float \<Rightarrow> float"
  int_to_float :: "int \<Rightarrow> float"

record ProcessArgs =
  sampleRate :: float

record Input =
  getVoltage :: float
  isConnected :: bool

text \<open>
  \<open>process\<close>, statement by statement.  \<open>params\<close> and \<open>inputs\<close> are the host's
  parameter and port arrays as the call finds them; the result is the voltage set on
  \<open>OUT1\<close> and the module's new state.  \<open>numConnected\<close> is a C \<open>int\<close> that is
  incremented at most \<open>NUM_INPUTS\<close> times, so it cannot overflow.
\<close>

definition process ::
  "'f platform \<Rightarrow> ProcessArgs \<Rightarrow> (ParamIds \<Rightarrow> float) \<Rightarrow> (InputIds \<Rightarrow> Input) \<Rightarrow> 'f ChowRNN
     \<Rightarrow> float \<times> 'f ChowRNN" where
  "process P args params inputs s =
     (let s1 = (if float_to_bool (params RANDOM_PARAM) then randomiseModel s else s);
          input = map (\<lambda>i. getVoltage (inputs i)) input_ids;
          (y, m) = forward P (model s1) input;
          (y1, m1) = (if isnan y then (f_0, Model_reset m) else (y, m));
          bq = setParameters P HIGHPASS (fdiv P f_30 (sampleRate args)) f_SQRT1_2 f_1
                 (dcBlocker s1);
          (y2, bq1) = bq_process P bq y1;
          numConnected = fold (\<lambda>i n. if isConnected (inputs i) then n + 1 else n) input_ids (0::int);
          makeupGain = fdiv P f_4 (int_to_float P (max numConnected 1))
      in (fmul P y2 makeupGain, s1\<lparr>model := m1, dcBlocker := bq1\<rparr>))"

definition onReset :: "'f ChowRNN \<Rightarrow> 'f ChowRNN" where
  "onReset s = s\<lparr>model := Model_reset (model s)\<rparr>"

section \<open>Observations used in the statements\<close>

text \<open>The variant and the widths of a layer; the shape of a matrix (the length of each
  row); the hidden state of a layer that has one, and the zero vector of its width.\<close>

datatype LayerKind = Affine | Activation | Recurrent

fun kind :: "'a Layer \<Rightarrow> LayerKind" where
  "kind (LDense d) = Affine"
| "kind (LTanh n) = Activation"
| "kind (LGRU g) = Recurrent"

fun widths :: "'a Layer \<Rightarrow> nat \<times> nat" where
  "widths (LDense d) = (in_size d, out_size d)"
| "widths (LTanh n) = (n, n)"
| "widths (LGRU g) = (in_size g, out_size g)"

definition shape :: "'a list list \<Rightarrow> nat list" where
  "shape M = map length M"

fun hidden_state :: "'a Layer \<Rightarrow> 'a list option" where
  "hidden_state (LGRU g) = Some (gru_h g)"
| "hidden_state l = None"

fun zero_state :: "'a::zero Layer \<Rightarrow> 'a list option" where
  "zero_state (LGRU g) = Some (replicate (out_size g) 0)"
| "zero_state l = None"

text \<open>The bias of the output layer, \<open>model.layers[3]\<close>, when that is a dense layer.\<close>

definition output_bias :: "'a Model \<Rightarrow> 'a list option" where
  "output_bias m = (case layers m ! 3 of LDense d \<Rightarrow> Some (dense_b d) | _ \<Rightarrow> None)"

section \<open>The stages of \<open>process\<close>\<close>

text \<open>
  The seven steps of the per-sample algorithm, each as a function of its own, named after
  what it does: randomise when the trigger is active; read the input vector; (run
  \<open>forward\<close>;) apply the instability check; run the post-filter; compute the makeup
  gain.  They are compared with \<open>process\<close> below.
\<close>

definition randomise_if_triggered :: "(ParamIds \<Rightarrow> float) \<Rightarrow> 'f ChowRNN \<Rightarrow> 'f ChowRNN" where
  "randomise_if_triggered params s =
     (if float_to_bool (params RANDOM_PARAM) then randomiseModel s else s)"

definition read_input :: "(InputIds \<Rightarrow> Input) \<Rightarrow> float list" where
  "read_input inputs = map (\<lambda>i. getVoltage (inputs i)) input_ids"

definition instability_check :: "float \<times> float Model \<Rightarrow> float \<times> float Model" where
  "instability_check ym = (if isnan (fst ym) then (f_0, Model_reset (snd ym)) else ym)"

definition post_filter :: "'f platform \<Rightarrow> ProcessArgs \<Rightarrow> 'f \<Rightarrow> float \<Rightarrow> float \<times> 'f" where
  "post_filter P args bq y =
     bq_process P
       (setParameters P HIGHPASS (fdiv P f_30 (sampleRate args)) f_SQRT1_2 f_1 bq) y"

definition num_connected :: "(InputIds \<Rightarrow> Input) \<Rightarrow> int" where
  "num_connected inputs = int (length (filter (\<lambda>i. isConnected (inputs i)) input_ids))"

definition makeup_gain :: "'f platform \<Rightarrow> (InputIds \<Rightarrow> Input) \<Rightarrow> float" where
  "makeup_gain P inputs = fdiv P f_4 (int_to_float P (max (num_connected inputs) 1))"

section \<open>A concrete module and a test platform\<close>

text \<open>A concrete module, for the instances below: the constructor run on memory that
  holds \<open>1.0f\<close> everywhere, with a generator that always draws \<open>4.0f\<close> and a filter
  state that is a single \<open>float\<close>.\<close>

definition heap0 :: "nat \<Rightarrow> nat \<Rightarrow> float" where "heap0 k i = f_1"

definition rng0 :: LayerRandomiser where "rng0 i = f_4"

definition s0 :: "float ChowRNN" where "s0 = ChowRNN_new heap0 rng0 f_0"

text \<open>
  A test platform.  \<open>forward\<close> returns a chosen value \<open>y\<close> and, as the recurrent layer
  does, commits a chosen hidden state \<open>hv\<close> in \<open>layers[2]\<close>.  The filter is a
  one-sample delay: its state is the sample it was fed last, which it returns on the
  next call, so the state after a call shows what the filter was fed.  The arithmetic is
  tabulated on the operands that occur (\<open>4.0f / 4.0f = 1.0f\<close>,
  \<open>30.0f / 48000.0f\<close>, \<open>a * 1.0f = a\<close>, \<open>(float) 4 = 4.0f\<close>) and is NaN elsewhere.
\<close>

definition f_48000 :: float where "f_48000 = Float 0x473B8000"

definition commit_hidden :: "float list \<Rightarrow> float Model \<Rightarrow> float Model" where
  "commit_hidden hv m =
     (case layers m ! 2 of LGRU g \<Rightarrow> set_layer m 2 (LGRU (g\<lparr>gru_h := hv\<rparr>)) | _ \<Rightarrow> m)"

definition probe :: "float \<Rightarrow> float list \<Rightarrow> float platform" where
  "probe y hv =
     \<lparr>forward = (\<lambda>m x. (y, commit_hidden hv m)),
      setParameters = (\<lambda>t f q g bq. bq),
      bq_process = (\<lambda>bq x. (bq, x)),
      fmul = (\<lambda>a c. if c = f_1 then a else f_nan),
      fdiv = (\<lambda>a c. if a = f_4 \<and> c = f_4 then f_1
                     else if a = f_30 \<and> c = f_48000 then Float 0x3A23D70A else f_nan),
      int_to_float = (\<lambda>n. if n = 4 then f_4 else if n = 1 then f_1 else f_nan)\<rparr>"

definition args0 :: ProcessArgs where
  "args0 = \<lparr>sampleRate = f_48000\<rparr>"

text \<open>The randomise button released; all four inputs connected and held at \<open>1.0f\<close>.\<close>

definition params0 :: "ParamIds \<Rightarrow> float" where
  "params0 p = f_0"

definition inputs0 :: "InputIds \<Rightarrow> Input" where
  "inputs0 i = \<lparr>getVoltage = f_1, isConnected = True\<rparr>"

definition ones :: "float list" where
  "ones = [f_1, f_1, f_1, f_1]"

text \<open>
  A second test platform.  \<open>forward\<close> returns the first weight of the first layer of the
  model it is given and commits the input vector it is given as the hidden state, so its
  result shows which model and which input it ran on.  The filter passes its input
  through and remembers it.  The arithmetic is tabulated as above.
\<close>

definition first_weight :: "float Model \<Rightarrow> float" where
  "first_weight m = (case layers m ! 0 of LDense d \<Rightarrow> dense_W d ! 0 ! 0 | _ \<Rightarrow> f_nan)"

definition echo :: "float platform" where
  "echo =
     \<lparr>forward = (\<lambda>m x. (first_weight m, commit_hidden x m)),
      setParameters = (\<lambda>t f q g bq. bq),
      bq_process = (\<lambda>bq x. (x, x)),
      fmul = (\<lambda>a c. if c = f_1 then a else f_nan),
      fdiv = (\<lambda>a c. if a = f_4 \<and> c = f_4 then f_1
                     else if a = f_30 \<and> c = f_48000 then Float 0x3A23D70A else f_nan),
      int_to_float = (\<lambda>n. if n = 4 then f_4 else if n = 1 then f_1 else f_nan)\<rparr>"

text \<open>The randomise button pressed.\<close>

definition params1 :: "ParamIds \<Rightarrow> float" where
  "params1 p = f_1"

section \<open>Persistence\<close>

text \<open>
  The persistence document is a tree of objects, as the \<open>json_t\<close> values of the code
  are.  Modelled from the spec: its leaves are the per-tensor records of section 4.6, a
  flattened ordered sequence of floating-point values together with the shape needed to
  reconstruct the tensor.  (A JSON real holds a \<open>double\<close>; every \<open>float\<close> is a
  \<open>double\<close> and converts back to itself, so a leaf is kept as the \<open>float\<close>s it
  stands for.)  A null pointer is \<open>None\<close>.
\<close>

datatype json_t = JTensor "nat list" "float list" | JObject "(string \<times> json_t) list"

text \<open>
  The three calls of the JSON library the module makes: \<open>json_object()\<close> makes an
  empty object; \<open>json_object_set_new\<close> sets a key of an object, replacing the value
  if the key exists, and leaves anything that is not an object alone;
  \<open>json_object_get\<close> returns the value of a key, or null when the key is absent or the
  value is not an object.
\<close>

definition json_object :: json_t where
  "json_object = JObject []"

fun json_object_set_new :: "json_t \<Rightarrow> string \<Rightarrow> json_t \<Rightarrow> json_t" where
  "json_object_set_new (JObject kvs) k v = JObject (AList.update k v kvs)"
| "json_object_set_new j k v = j"

fun json_object_get :: "json_t \<Rightarrow> string \<Rightarrow> json_t option" where
  "json_object_get (JObject kvs) k = map_of kvs k"
| "json_object_get j k = None"

text \<open>
  Modelled from the spec: \<open>LayerJson\<close> (LayerJSON.hpp is not among the sources).
  \<open>save\<close> maps a stable field name (\<open>W\<close> and \<open>b\<close>; per-gate names for the
  recurrent layer) to the record of that tensor.  \<open>load\<close> overwrites a tensor from its
  field, in place; a field that is missing, is no tensor record, names another shape or
  has the wrong element count leaves the tensor as it was.  The hidden state is never
  saved or loaded.
\<close>

fun refill :: "'a list list \<Rightarrow> 'b list \<Rightarrow> 'b list list" where
  "refill [] vs = []"
| "refill (row # rows) vs = take (length row) vs # refill rows (drop (length row) vs)"

definition load_mat :: "json_t option \<Rightarrow> nat list \<Rightarrow> float list list \<Rightarrow> float list list" where
  "load_mat field sh M =
     (case field of
        Some (JTensor sh' vs) \<Rightarrow>
          if sh' = sh \<and> length vs = length (concat M) then refill M vs else M
      | _ \<Rightarrow> M)"

definition load_vec :: "json_t option \<Rightarrow> nat list \<Rightarrow> float list \<Rightarrow> float list" where
  "load_vec field sh v =
     (case field of
        Some (JTensor sh' vs) \<Rightarrow> if sh' = sh \<and> length vs = length v then vs else v
      | _ \<Rightarrow> v)"

definition DenseToJson :: "float Dense \<Rightarrow> json_t" where
  "DenseToJson d =
     JObject [(''W'', JTensor [out_size d, in_size d] (concat (dense_W d))),
              (''b'', JTensor [out_size d] (dense_b d))]"

definition JsonToDense :: "float Dense \<Rightarrow> json_t \<Rightarrow> float Dense" where
  "JsonToDense d j =
     d\<lparr>dense_W := load_mat (json_object_get j ''W'') [out_size d, in_size d] (dense_W d),
       dense_b := load_vec (json_object_get j ''b'') [out_size d] (dense_b d)\<rparr>"

definition GruToJson :: "float GRULayer \<Rightarrow> json_t" where
  "GruToJson g =
     JObject [(''W_r'', JTensor [out_size g, in_size g] (concat (W_r g))),
              (''W_z'', JTensor [out_size g, in_size g] (concat (W_z g))),
              (''W_n'', JTensor [out_size g, in_size g] (concat (W_n g))),
              (''U_r'', JTensor [out_size g, out_size g] (concat (U_r g))),
              (''U_z'', JTensor [out_size g, out_size g] (concat (U_z g))),
              (''U_n'', JTensor [out_size g, out_size g] (concat (U_n g))),
              (''b_r'', JTensor [out_size g] (b_r g)),
              (''b_z'', JTensor [out_size g] (b_z g)),
              (''b_n'', JTensor [out_size g] (b_n g))]"

definition JsonToGru :: "float GRULayer \<Rightarrow> json_t \<Rightarrow> float GRULayer" where
  "JsonToGru g j =
     g\<lparr>W_r := load_mat (json_object_get j ''W_r'') [out_size g, in_size g] (W_r g),
       W_z := load_mat (json_object_get j ''W_z'') [out_size g, in_size g] (W_z g),
       W_n := load_mat (json_object_get j ''W_n'') [out_size g, in_size g] (W_n g),
       U_r := load_mat (json_object_get j ''U_r'') [out_size g, out_size g] (U_r g),
       U_z := load_mat (json_object_get j ''U_z'') [out_size g, out_size g] (U_z g),
       U_n := load_mat (json_object_get j ''U_n'') [out_size g, out_size g] (U_n g),
       b_r := load_vec (json_object_get j ''b_r'') [out_size g] (b_r g),
       b_z := load_vec (json_object_get j ''b_z'') [out_size g] (b_z g),
       b_n := load_vec (json_object_get j ''b_n'') [out_size g] (b_n g)\<rparr>"

text \<open>
  \<open>dataToJson\<close> and \<open>dataFromJson\<close> of the module: a layer is saved, or loaded, when
  the \<open>dynamic_cast\<close> to its class succeeds; a key is loaded when \<open>json_object_get\<close>
  returns a non-null pointer.
\<close>

definition dataToJson :: "'f ChowRNN \<Rightarrow> json_t" where
  "dataToJson s =
     (let rootJ = json_object;
          rootJ1 = (case layers (model s) ! 0 of
                      LDense denseLayer \<Rightarrow>
                        json_object_set_new rootJ ''dense1'' (DenseToJson denseLayer)
                    | _ \<Rightarrow> rootJ);
          rootJ2 = (case layers (model s) ! 2 of
                      LGRU gruLayer \<Rightarrow> json_object_set_new rootJ1 ''gru'' (GruToJson gruLayer)
                    | _ \<Rightarrow> rootJ1);
          rootJ3 = (case layers (model s) ! 3 of
                      LDense denseLayer \<Rightarrow>
                        json_object_set_new rootJ2 ''denseOut'' (DenseToJson denseLayer)
                    | _ \<Rightarrow> rootJ2)
      in rootJ3)"

definition dataFromJson :: "json_t \<Rightarrow> 'f ChowRNN \<Rightarrow> 'f ChowRNN" where
  "dataFromJson json s =
     (let s1 = (case json_object_get json ''dense1'' of
                  Some dense1J \<Rightarrow>
                    (case layers (model s) ! 0 of
                       LDense denseLayer \<Rightarrow>
                         s\<lparr>model := set_layer (model s) 0
                                       (LDense (JsonToDense denseLayer dense1J))\<rparr>
                     | _ \<Rightarrow> s)
                | None \<Rightarrow> s);
          s2 = (case json_object_get json ''gru'' of
                  Some gruJ \<Rightarrow>
                    (case layers (model s1) ! 2 of
                       LGRU gruLayer \<Rightarrow>
                         s1\<lparr>model := set_layer (model s1) 2 (LGRU (JsonToGru gruLayer gruJ))\<rparr>
                     | _ \<Rightarrow> s1)
                | None \<Rightarrow> s1);
          s3 = (case json_object_get json ''denseOut'' of
                  Some denseOutJ \<Rightarrow>
                    (case layers (model s2) ! 3 of
                       LDense denseLayer \<Rightarrow>
                         s2\<lparr>model := set_layer (model s2) 3
                                        (LDense (JsonToDense denseLayer denseOutJ))\<rparr>
                     | _ \<Rightarrow> s2)
                | None \<Rightarrow> s2)
      in s3)"

text \<open>Two layers have the same shape when their widths and the shapes of their tensors
  agree.\<close>

definition same_shape_Dense :: "'a Dense \<Rightarrow> 'a Dense \<Rightarrow> bool" where
  "same_shape_Dense d d' =
     (in_size d = in_size d' \<and> out_size d = out_size d'
      \<and> shape (dense_W d) = shape (dense_W d') \<and> length (dense_b d) = length (dense_b d'))"

definition same_shape_GRU :: "'a GRULayer \<Rightarrow> 'a GRULayer \<Rightarrow> bool" where
  "same_shape_GRU g g' =
     (in_size g = in_size g' \<and> out_size g = out_size g'
      \<and> shape (W_r g) = shape (W_r g') \<and> shape (W_z g) = shape (W_z g')
      \<and> shape (W_n g) = shape (W_n g') \<and> shape (U_r g) = shape (U_r g')
      \<and> shape (U_z g) = shape (U_z g') \<and> shape (U_n g) = shape (U_n g')
      \<and> length (b_r g) = length (b_r g') \<and> length (b_z g) = length (b_z g')
      \<and> length (b_n g) = length (b_n g'))"

text \<open>A second concrete module, built on memory that holds \<open>4.0f\<close>.\<close>

definition heap4 :: "nat \<Rightarrow> nat \<Rightarrow> float" where "heap4 k i = f_4"

definition t0 :: "float ChowRNN" where "t0 = ChowRNN_new heap4 rng0 f_0"

text \<open>A document with the keys \<open>dense1\<close> and \<open>denseOut\<close> and no key \<open>gru\<close>.\<close>

definition doc_no_gru :: json_t where
  "doc_no_gru = JObject [(''dense1'', DenseToJson (new_Dense (heap4 0) 4 4)),
                         (''denseOut'', DenseToJson (new_Dense (heap4 2) 4 1))]"

section \<open>The forward pass\<close>

text \<open>
  The layers are templates over the scalar type \<open>T\<close>, and their forward pass uses the
  arithmetic of \<open>T\<close>: addition, subtraction, multiplication, the constants 0 and 1, the
  logistic sigmoid and the hyperbolic tangent.  An \<open>arith\<close> holds these operations.  For
  \<open>T = float\<close>, the instance the module uses, they are the rounding operations of the
  machine (with overflow to infinity and NaN); they are not defined here, and every theorem
  below holds for any \<open>float arith\<close>.  For the real numbers they are the exact ones.
\<close>

record 'a arith =
  a_add :: "'a \<Rightarrow> 'a \<Rightarrow> 'a"
  a_sub :: "'a \<Rightarrow> 'a \<Rightarrow> 'a"
  a_mul :: "'a \<Rightarrow> 'a \<Rightarrow> 'a"
  a_zero :: 'a
  a_one :: 'a
  a_sigmoid :: "'a \<Rightarrow> 'a"
  a_tanh :: "'a \<Rightarrow> 'a"

definition sigmoid :: "real \<Rightarrow> real" where
  "sigmoid v = 1 / (1 + exp (- v))"

definition real_arith :: "real arith" where
  "real_arith = \<lparr>a_add = (+), a_sub = (-), a_mul = (*), a_zero = 0, a_one = 1,
                  a_sigmoid = sigmoid, a_tanh = tanh\<rparr>"

text \<open>
  Modelled from the spec: the forward pass of the layers (\<open>Dense::forward\<close>,
  \<open>TanhActivation::forward\<close>, \<open>GRULayer::forward\<close>) and of the model
  (\<open>Model::forward\<close>); the library's source is absent.  They follow sections 4.1 to
  4.4 as programs on vectors: a dot product accumulates the products from the left,
  starting at 0; a matrix-vector product takes the dot product of each row; sums and
  products of vectors are elementwise.  The recurrent layer computes the reset gate \<open>r\<close>,
  the update gate \<open>z\<close>, the candidate \<open>n\<close> and the new hidden state \<open>h'\<close>, returns
  \<open>h'\<close> and keeps it as its hidden state.  The model feeds each layer's output to the
  next and returns the scalar the last layer produces.
\<close>

definition dot :: "'a arith \<Rightarrow> 'a list \<Rightarrow> 'a list \<Rightarrow> 'a" where
  "dot ar xs ys = foldl (a_add ar) (a_zero ar) (map2 (a_mul ar) xs ys)"

definition matvec :: "'a arith \<Rightarrow> 'a list list \<Rightarrow> 'a list \<Rightarrow> 'a list" where
  "matvec ar M v = map (\<lambda>row. dot ar row v) M"

definition vadd :: "'a arith \<Rightarrow> 'a list \<Rightarrow> 'a list \<Rightarrow> 'a list" where
  "vadd ar xs ys = map2 (a_add ar) xs ys"

definition vmul :: "'a arith \<Rightarrow> 'a list \<Rightarrow> 'a list \<Rightarrow> 'a list" where
  "vmul ar xs ys = map2 (a_mul ar) xs ys"

definition Dense_forward :: "'a arith \<Rightarrow> 'a Dense \<Rightarrow> 'a list \<Rightarrow> 'a list" where
  "Dense_forward ar d x = vadd ar (matvec ar (dense_W d) x) (dense_b d)"

definition Tanh_forward :: "'a arith \<Rightarrow> 'a list \<Rightarrow> 'a list" where
  "Tanh_forward ar x = map (a_tanh ar) x"

definition GRU_forward :: "'a arith \<Rightarrow> 'a GRULayer \<Rightarrow> 'a list \<Rightarrow> 'a list \<times> 'a GRULayer" where
  "GRU_forward ar g x =
     (let h = gru_h g;
          r = map (a_sigmoid ar)
                (vadd ar (vadd ar (matvec ar (W_r g) x) (matvec ar (U_r g) h)) (b_r g));
          z = map (a_sigmoid ar)
                (vadd ar (vadd ar (matvec ar (W_z g) x) (matvec ar (U_z g) h)) (b_z g));
          n = map (a_tanh ar)
                (vadd ar (vadd ar (matvec ar (W_n g) x) (matvec ar (U_n g) (vmul ar r h)))
                   (b_n g));
          h' = vadd ar (vmul ar (map (a_sub ar (a_one ar)) z) n) (vmul ar z h)
      in (h', g\<lparr>gru_h := h'\<rparr>))"

fun Layer_forward :: "'a arith \<Rightarrow> 'a Layer \<Rightarrow> 'a list \<Rightarrow> 'a list \<times> 'a Layer" where
  "Layer_forward ar (LDense d) x = (Dense_forward ar d x, LDense d)"
| "Layer_forward ar (LTanh k) x = (Tanh_forward ar x, LTanh k)"
| "Layer_forward ar (LGRU g) x = (let (h', g') = GRU_forward ar g x in (h', LGRU g'))"

fun layers_forward :: "'a arith \<Rightarrow> 'a Layer list \<Rightarrow> 'a list \<Rightarrow> 'a list \<times> 'a Layer list" where
  "layers_forward ar [] x = (x, [])"
| "layers_forward ar (l # ls) x =
     (let (y, l') = Layer_forward ar l x;
          (z, ls') = layers_forward ar ls y
      in (z, l' # ls'))"

definition Model_forward :: "'a arith \<Rightarrow> 'a Model \<Rightarrow> 'a list \<Rightarrow> 'a \<times> 'a Model" where
  "Model_forward ar m x =
     (let (y, ls') = layers_forward ar (layers m) x
      in (case y of [] \<Rightarrow> a_zero ar | v # _ \<Rightarrow> v, m\<lparr>layers := ls'\<rparr>))"

text \<open>
  The \<open>forward\<close> that \<open>process\<close> calls is \<open>Model_forward\<close> at the \<open>float\<close> arithmetic
  of the machine: a platform with that field set.
\<close>

definition with_Model_forward :: "float arith \<Rightarrow> 'f platform \<Rightarrow> 'f platform" where
  "with_Model_forward ar P = P\<lparr>forward := Model_forward ar\<rparr>"

text \<open>The invariant of section 3: every tensor of the layer has the shape its widths
  give it.\<close>

definition GRU_wf :: "'a GRULayer \<Rightarrow> bool" where
  "GRU_wf g =
     (shape (W_r g) = replicate (out_size g) (in_size g)
      \<and> shape (W_z g) = replicate (out_size g) (in_size g)
      \<and> shape (W_n g) = replicate (out_size g) (in_size g)
      \<and> shape (U_r g) = replicate (out_size g) (out_size g)
      \<and> shape (U_z g) = replicate (out_size g) (out_size g)
      \<and> shape (U_n g) = replicate (out_size g) (out_size g)
      \<and> length (b_r g) = out_size g \<and> length (b_z g) = out_size g
      \<and> length (b_n g) = out_size g \<and> length (gru_h g) = out_size g)"

text \<open>
  The equations of section 4.3, component by component, in the arithmetic \<open>ar\<close>: the
  \<open>i\<close>-th element of the reset gate \<open>r_t\<close>, of the update gate \<open>z_t\<close>, of the
  candidate \<open>n_t\<close> and of the new hidden state \<open>h_t\<close>, for the input \<open>x\<close> and the
  hidden state \<open>gru_h g\<close> that the layer holds before the call.  \<open>W x\<close> at row \<open>i\<close>
  is the dot product of the \<open>i\<close>-th row of \<open>W\<close> with \<open>x\<close>; \<open>r_t * h\<close> is the vector
  of the products \<open>r_t j * h j\<close>.
\<close>

definition r_t :: "'a arith \<Rightarrow> 'a GRULayer \<Rightarrow> 'a list \<Rightarrow> nat \<Rightarrow> 'a" where
  "r_t ar g x i =
     a_sigmoid ar
       (a_add ar (a_add ar (dot ar (W_r g ! i) x) (dot ar (U_r g ! i) (gru_h g))) (b_r g ! i))"

definition z_t :: "'a arith \<Rightarrow> 'a GRULayer \<Rightarrow> 'a list \<Rightarrow> nat \<Rightarrow> 'a" where
  "z_t ar g x i =
     a_sigmoid ar
       (a_add ar (a_add ar (dot ar (W_z g ! i) x) (dot ar (U_z g ! i) (gru_h g))) (b_z g ! i))"

definition n_t :: "'a arith \<Rightarrow> 'a GRULayer \<Rightarrow> 'a list \<Rightarrow> nat \<Rightarrow> 'a" where
  "n_t ar g x i =
     a_tanh ar
       (a_add ar
          (a_add ar (dot ar (W_n g ! i) x)
             (dot ar (U_n g ! i)
                (map (\<lambda>j. a_mul ar (r_t ar g x j) (gru_h g ! j)) [0..<out_size g])))
          (b_n g ! i))"

definition h_t :: "'a arith \<Rightarrow> 'a GRULayer \<Rightarrow> 'a list \<Rightarrow> nat \<Rightarrow> 'a" where
  "h_t ar g x i =
     a_add ar (a_mul ar (a_sub ar (a_one ar) (z_t ar g x i)) (n_t ar g x i))
              (a_mul ar (z_t ar g x i) (gru_h g ! i))"

text \<open>
  A recurrent layer from 2 to 2 with weights, biases and a hidden state that are not
  zero, and an input for it.
\<close>

definition gru2 :: "real GRULayer" where
  "gru2 = \<lparr>in_size = 2, out_size = 2,
           W_r = [[1, 0], [0, 1]], W_z = [[1, -1], [2, 0]], W_n = [[0, 1], [1, 1]],
           U_r = [[0, 1], [1, 0]], U_z = [[1, 1], [0, 1]], U_n = [[2, 0], [1, 1]],
           b_r = [0, 1], b_z = [1, 0], b_n = [-3, 0], gru_h = [1, -1]\<rparr>"

definition x2 :: "real list" where
  "x2 = [1, 2]"

section \<open>Classification of values\<close>

lemma isnan_not_finite: "isnan x \<Longrightarrow> \<not> isfinite x"
  by (simp add: isnan_def isfinite_def)

lemma not_finite_cases: "\<not> isfinite x \<longleftrightarrow> isnan x \<or> isinf x"
  by (auto simp: isnan_def isinf_def isfinite_def)

lemma f_0_class: "isfinite f_0 \<and> \<not> isnan f_0 \<and> \<not> float_to_bool f_0"
  by (simp add: f_0_def isfinite_def isnan_def float_to_bool_def exponent_def fraction_def)

lemma f_inf_class: "\<not> isfinite f_inf \<and> \<not> isnan f_inf \<and> isinf f_inf"
  by (simp add: f_inf_def isfinite_def isnan_def isinf_def exponent_def fraction_def)

lemma f_nan_class: "\<not> isfinite f_nan \<and> isnan f_nan"
  by (simp add: f_nan_def isfinite_def isnan_def exponent_def fraction_def)

lemma f_1_class: "isfinite f_1 \<and> \<not> isnan f_1 \<and> float_to_bool f_1"
  by (simp add: f_1_def isfinite_def isnan_def float_to_bool_def exponent_def fraction_def)

lemma f_0_zero: "f_0 = 0"
  by (simp add: f_0_def zero_float_def)

section \<open>Construction\<close>

lemma length_alloc_vec: "length (alloc_vec mem off n) = n"
  by (simp add: alloc_vec_def)

lemma shape_alloc_mat: "shape (alloc_mat mem off rows cols) = replicate rows cols"
  by (simp add: shape_def alloc_mat_def alloc_vec_def map_replicate_const comp_def)

lemma ChowRNN_new_layers:
  "layers (model (ChowRNN_new heap rng bq)) =
     [LDense (new_Dense (heap 0) 4 4),
      LTanh 4,
      LGRU (GRU_reset (new_GRULayer (heap 1) 4 4)),
      LDense ((new_Dense (heap 2) 4 1)\<lparr>dense_b := [0]\<rparr>)]"
  by (simp add: ChowRNN_new_def Model_new_def addLayer_def Model_reset_def set_layer_def
      NDims_def zeroDenseBias_def new_Dense_def alloc_vec_def Let_def)

lemma ChowRNN_new_eq:
  "ChowRNN_new heap rng bq =
     \<lparr>model = \<lparr>model_in_size = 4, layers =
        [LDense (new_Dense (heap 0) 4 4),
         LTanh 4,
         LGRU (GRU_reset (new_GRULayer (heap 1) 4 4)),
         LDense ((new_Dense (heap 2) 4 1)\<lparr>dense_b := [0]\<rparr>)]\<rparr>,
      rando = rng, dcBlocker = bq\<rparr>"
  by (simp add: ChowRNN_new_def Model_new_def addLayer_def Model_reset_def set_layer_def
      NDims_def zeroDenseBias_def new_Dense_def alloc_vec_def Let_def)

text \<open>
  C8.  The constructor assembles exactly four layers, in this order: an affine layer
  from 4 to 4, a tanh activation of width 4, a gated recurrent layer from 4 to 4 and
  an affine layer from 4 to 1; the bias of the last layer has one element and it is 0.
  The first three conjuncts give the layers, their variants and their widths; the last
  one reads the bias.
\<close>

theorem ChowRNN_new_topology:
  "layers (model (ChowRNN_new heap rng bq)) =
     [LDense (new_Dense (heap 0) 4 4),
      LTanh 4,
      LGRU (GRU_reset (new_GRULayer (heap 1) 4 4)),
      LDense ((new_Dense (heap 2) 4 1)\<lparr>dense_b := [0]\<rparr>)]
   \<and> map kind (layers (model (ChowRNN_new heap rng bq))) =
       [Affine, Activation, Recurrent, Affine]
   \<and> map widths (layers (model (ChowRNN_new heap rng bq))) = [(4, 4), (4, 4), (4, 4), (4, 1)]
   \<and> output_bias (model (ChowRNN_new heap rng bq)) = Some [0]"
  by (simp add: ChowRNN_new_layers output_bias_def GRU_reset_def new_Dense_def
      new_GRULayer_def Let_def)

section \<open>Randomisation\<close>

lemma skip_0: "skip 0 rng = rng"
  by (simp add: skip_def)

lemma skip_skip: "skip a (skip b rng) = skip (b + a) rng"
  by (simp add: skip_def add.assoc)

lemma draws_append: "map rng [0..<n] @ map (skip n rng) [0..<m] = map rng [0..<n + m]"
proof -
  have "map (skip n rng) [0..<m] = map rng [n..<n + m]"
    by (simp add: skip_def map_add_upt[symmetric] add.commute del: map_add_upt)
  then show ?thesis
    by (metis map_append upt_add_eq_append zero_le)
qed

lemma random_mat_shape: "shape (fst (random_mat rng M)) = shape M"
  by (induction M arbitrary: rng) (simp_all add: shape_def split_def random_vec_def Let_def)

lemma random_mat_snd: "snd (random_mat rng M) = skip (length (concat M)) rng"
  by (induction M arbitrary: rng)
    (simp_all add: split_def random_vec_def skip_0 skip_skip Let_def)

lemma random_mat_concat: "concat (fst (random_mat rng M)) = map rng [0..<length (concat M)]"
proof (induction M arbitrary: rng)
  case Nil
  then show ?case by simp
next
  case (Cons row M)
  have "concat (fst (random_mat rng (row # M)))
        = map rng [0..<length row] @ map (skip (length row) rng) [0..<length (concat M)]"
    by (simp add: split_def random_vec_def Cons.IH Let_def)
  then show ?case by (simp add: draws_append)
qed

lemma map_skip: "map (skip N rng) [0..<n] = map rng [N..<N + n]"
  by (rule nth_equalityI) (simp_all add: skip_def)

lemma upt_join: "a \<le> b \<Longrightarrow> b \<le> c \<Longrightarrow> map f [a..<b] @ map f [b..<c] = map f [a..<c]"
  by (metis le_Suc_ex map_append upt_add_eq_append)

lemma upt_join_app:
  "a \<le> b \<Longrightarrow> b \<le> c \<Longrightarrow> map f [a..<b] @ map f [b..<c] @ rest = map f [a..<c] @ rest"
  by (metis append_assoc upt_join)

lemma randomise_explicit:
  assumes "layers (model s) = [LDense d1, l1, LGRU g, LDense d2]"
  shows "randomiseModel s =
     (let r0 = rando s;
          w1 = fst (random_mat r0 (dense_W d1)); r1 = skip (length (concat (dense_W d1))) r0;
          c1 = map r1 [0..<length (dense_b d1)]; r2 = skip (length (dense_b d1)) r1;
          wr = fst (random_mat r2 (W_r g)); r3 = skip (length (concat (W_r g))) r2;
          wz = fst (random_mat r3 (W_z g)); r4 = skip (length (concat (W_z g))) r3;
          wn = fst (random_mat r4 (W_n g)); r5 = skip (length (concat (W_n g))) r4;
          ur = fst (random_mat r5 (U_r g)); r6 = skip (length (concat (U_r g))) r5;
          uz = fst (random_mat r6 (U_z g)); r7 = skip (length (concat (U_z g))) r6;
          un = fst (random_mat r7 (U_n g)); r8 = skip (length (concat (U_n g))) r7;
          br = map r8 [0..<length (b_r g)]; r9 = skip (length (b_r g)) r8;
          bz = map r9 [0..<length (b_z g)]; r10 = skip (length (b_z g)) r9;
          bn = map r10 [0..<length (b_n g)]; r11 = skip (length (b_n g)) r10;
          w2 = fst (random_mat r11 (dense_W d2)); r12 = skip (length (concat (dense_W d2))) r11
      in s\<lparr>model := (model s)\<lparr>layers :=
              [LDense (d1\<lparr>dense_W := w1, dense_b := c1\<rparr>), l1,
               LGRU (g\<lparr>W_r := wr, W_z := wz, W_n := wn, U_r := ur, U_z := uz, U_n := un,
                       b_r := br, b_z := bz, b_n := bn\<rparr>),
               LDense (d2\<lparr>dense_W := w2\<rparr>)]\<rparr>,
            rando := r12\<rparr>)"
  using assms
  by (simp add: randomiseModel_def set_layer_def randomDenseWeights_def randomDenseBias_def
      randomGRU_def random_vec_def Let_def split_def random_mat_snd)

text \<open>
  C9.  On a model of the module's topology, \<open>randomiseModel\<close> replaces the weight
  matrix and the bias of the first affine layer, the six weight matrices and the three
  biases of the recurrent layer and the weight matrix of the output layer, and leaves the
  rest of the model and the filter as they were: the new model is the old one with
  exactly these twelve tensors updated, so the hidden state \<open>gru_h\<close>, the output bias,
  the activation layer and all widths are unchanged.  Every element of the twelve tensors
  is overwritten by a draw of its own: the shapes are kept, and read in order the new
  tensors are the first draws of the generator, one per element.
\<close>

theorem randomiseModel_overwrites:
  assumes "layers (model s) = [LDense d1, l1, LGRU g, LDense d2]"
  shows "\<exists>w1 c1 wr wz wn ur uz un br bz bn w2.
     model (randomiseModel s) = (model s)\<lparr>layers :=
        [LDense (d1\<lparr>dense_W := w1, dense_b := c1\<rparr>), l1,
         LGRU (g\<lparr>W_r := wr, W_z := wz, W_n := wn, U_r := ur, U_z := uz, U_n := un,
                 b_r := br, b_z := bz, b_n := bn\<rparr>),
         LDense (d2\<lparr>dense_W := w2\<rparr>)]\<rparr>
   \<and> dcBlocker (randomiseModel s) = dcBlocker s
   \<and> shape w1 = shape (dense_W d1) \<and> length c1 = length (dense_b d1)
   \<and> shape wr = shape (W_r g) \<and> shape wz = shape (W_z g) \<and> shape wn = shape (W_n g)
   \<and> shape ur = shape (U_r g) \<and> shape uz = shape (U_z g) \<and> shape un = shape (U_n g)
   \<and> length br = length (b_r g) \<and> length bz = length (b_z g) \<and> length bn = length (b_n g)
   \<and> shape w2 = shape (dense_W d2)
   \<and> concat w1 @ c1 @ concat wr @ concat wz @ concat wn @ concat ur @ concat uz @ concat un
        @ br @ bz @ bn @ concat w2
      = map (rando s)
          [0..<length (concat (dense_W d1) @ dense_b d1 @ concat (W_r g) @ concat (W_z g)
                 @ concat (W_n g) @ concat (U_r g) @ concat (U_z g) @ concat (U_n g)
                 @ b_r g @ b_z g @ b_n g @ concat (dense_W d2))]"
  apply (simp only: randomise_explicit[OF assms] Let_def)
  apply (intro exI conjI)
  apply (simp; fail)
  apply (simp; fail)
  apply (rule random_mat_shape | simp; fail)+
  apply (simp add: random_mat_concat skip_skip map_skip upt_join upt_join_app add.assoc)
  done

theorem randomiseModel_overwrites_witness:
  "layers (model s0) =
     [LDense (new_Dense (heap0 0) 4 4), LTanh 4,
      LGRU (GRU_reset (new_GRULayer (heap0 1) 4 4)),
      LDense ((new_Dense (heap0 2) 4 1)\<lparr>dense_b := [0]\<rparr>)]
   \<and> map hidden_state (layers (model (randomiseModel s0))) = [None, None, Some [0, 0, 0, 0], None]
   \<and> output_bias (model (randomiseModel s0)) = Some [0]
   \<and> dcBlocker (randomiseModel s0) = f_0"
proof -
  have h: "layers (model s0) =
     [LDense (new_Dense (heap0 0) 4 4), LTanh 4,
      LGRU (GRU_reset (new_GRULayer (heap0 1) 4 4)),
      LDense ((new_Dense (heap0 2) 4 1)\<lparr>dense_b := [0]\<rparr>)]"
    by (simp add: s0_def ChowRNN_new_layers)
  from randomiseModel_overwrites[OF h] obtain w1 c1 wr wz wn ur uz un br bz bn w2 where
    m: "model (randomiseModel s0) = (model s0)\<lparr>layers :=
        [LDense ((new_Dense (heap0 0) 4 4)\<lparr>dense_W := w1, dense_b := c1\<rparr>), LTanh 4,
         LGRU ((GRU_reset (new_GRULayer (heap0 1) 4 4))
                 \<lparr>W_r := wr, W_z := wz, W_n := wn, U_r := ur, U_z := uz, U_n := un,
                 b_r := br, b_z := bz, b_n := bn\<rparr>),
         LDense ((new_Dense (heap0 2) 4 1)\<lparr>dense_b := [0], dense_W := w2\<rparr>)]\<rparr>"
    and d: "dcBlocker (randomiseModel s0) = dcBlocker s0"
    by blast
  have "dcBlocker s0 = f_0" by (simp add: s0_def ChowRNN_new_def Let_def split: Layer.splits)
  with h m d show ?thesis
    by (simp add: output_bias_def GRU_reset_def new_GRULayer_def Let_def numeral_eq_Suc)
qed

section \<open>The output bias\<close>

lemma nth_list_update_total:
  "(xs[i := x]) ! j = (if i = j \<and> i < length xs then x else xs ! j)"
  by (cases "i < length xs") (auto simp: nth_list_update list_update_beyond)

lemma output_bias_randomiseModel: "output_bias (model (randomiseModel s)) = output_bias (model s)"
proof -
  define s1 where "s1 = (case layers (model s) ! 0 of
                  LDense denseLayer \<Rightarrow>
                    (let (d1, rng1) = randomDenseWeights (rando s) denseLayer;
                         (d2, rng2) = randomDenseBias rng1 d1
                     in s\<lparr>model := set_layer (model s) 0 (LDense d2), rando := rng2\<rparr>)
                | _ \<Rightarrow> s)"
  define s2 where "s2 = (case layers (model s1) ! 2 of
                  LGRU gruLayer \<Rightarrow>
                    (let (g1, rng1) = randomGRU (rando s1) gruLayer
                     in s1\<lparr>model := set_layer (model s1) 2 (LGRU g1), rando := rng1\<rparr>)
                | _ \<Rightarrow> s1)"
  define s3 where "s3 = (case layers (model s2) ! 3 of
                  LDense denseLayer \<Rightarrow>
                    (let (d1, rng1) = randomDenseWeights (rando s2) denseLayer
                     in s2\<lparr>model := set_layer (model s2) 3 (LDense d1), rando := rng1\<rparr>)
                | _ \<Rightarrow> s2)"
  have r: "randomiseModel s = s3"
    unfolding randomiseModel_def s1_def s2_def s3_def Let_def by (rule refl)
  have 1: "output_bias (model s1) = output_bias (model s)"
    by (auto simp: s1_def output_bias_def set_layer_def split_def Let_def
        nth_list_update_total split: Layer.splits)
  have 2: "output_bias (model s2) = output_bias (model s1)"
    by (auto simp: s2_def output_bias_def set_layer_def split_def Let_def
        nth_list_update_total split: Layer.splits)
  have 3: "output_bias (model s3) = output_bias (model s2)"
    by (auto simp: s3_def output_bias_def set_layer_def split_def Let_def
        randomDenseWeights_def nth_list_update_total split: Layer.splits)
  show ?thesis by (simp add: r 1 2 3)
qed

text \<open>
  C10.  \<open>randomiseModel\<close> never changes the bias of the output layer, whatever the
  state it runs on; so after the constructor and any number of randomisations that bias
  is still the zero vector.
\<close>

theorem output_bias_stays_zero:
  "output_bias (model (randomiseModel s)) = output_bias (model s)
   \<and> output_bias (model ((randomiseModel ^^ n) (ChowRNN_new heap rng bq))) = Some [0]"
proof
  show "output_bias (model (randomiseModel s)) = output_bias (model s)"
    by (rule output_bias_randomiseModel)
  show "output_bias (model ((randomiseModel ^^ n) (ChowRNN_new heap rng bq))) = Some [0]"
  proof (induction n)
    case 0
    show ?case by (simp add: output_bias_def ChowRNN_new_layers)
  next
    case (Suc n)
    then show ?case by (simp add: output_bias_randomiseModel)
  qed
qed

section \<open>The per-sample algorithm\<close>

lemma length_input_ids: "length input_ids = NUM_INPUTS"
  by (simp add: input_ids_def NUM_INPUTS_def)

lemma UNIV_InputIds: "(UNIV :: InputIds set) = set input_ids"
  using InputIds.exhaust by (auto simp: input_ids_def)

lemma fold_count_connected:
  "fold (\<lambda>i n. if isConnected (inputs i) then n + 1 else n) input_ids (0::int)
   = num_connected inputs"
  by (simp add: num_connected_def input_ids_def)

lemma num_connected_card:
  fixes inputs :: "InputIds \<Rightarrow> Input"
  shows "num_connected inputs = int (card {i. isConnected (inputs i)})"
proof -
  have d: "distinct input_ids" by (simp add: input_ids_def)
  have "{i. isConnected (inputs i)} = set (filter (\<lambda>i. isConnected (inputs i)) input_ids)"
    using UNIV_InputIds by auto
  then have "card {i. isConnected (inputs i)}
             = length (filter (\<lambda>i. isConnected (inputs i)) input_ids)"
    using d by (simp only: distinct_card[OF distinct_filter])
  then show ?thesis by (simp add: num_connected_def)
qed

lemma num_connected_bounds: "0 \<le> num_connected inputs \<and> num_connected inputs \<le> 4"
proof -
  have "length (filter (\<lambda>i. isConnected (inputs i)) input_ids) \<le> length input_ids"
    by (rule length_filter_le)
  then show ?thesis by (simp add: num_connected_def input_ids_def)
qed

lemma num_connected_inputs0: "num_connected inputs0 = 4"
  by (simp add: num_connected_def input_ids_def inputs0_def)

lemma commit_s0: "layers (commit_hidden hv (model (ChowRNN_new heap rng bq))) =
        [LDense (new_Dense (heap 0) 4 4),
         LTanh 4,
         LGRU ((GRU_reset (new_GRULayer (heap 1) 4 4))\<lparr>gru_h := hv\<rparr>),
         LDense ((new_Dense (heap 2) 4 1)\<lparr>dense_b := [0]\<rparr>)]"
  by (simp add: ChowRNN_new_eq commit_hidden_def set_layer_def numeral_2_eq_2)

lemma process_stages:
  "process P args params inputs s =
     (let s1 = randomise_if_triggered params s;
          checked = instability_check (forward P (model s1) (read_input inputs));
          filtered = post_filter P args (dcBlocker s1) (fst checked)
      in (fmul P (fst filtered) (makeup_gain P inputs),
          s1\<lparr>model := snd checked, dcBlocker := snd filtered\<rparr>))"
  by (simp add: process_def fold_count_connected randomise_if_triggered_def read_input_def
      instability_check_def post_filter_def makeup_gain_def Let_def split_def)

lemma split31:
  fixes u :: nat
  shows "u mod 2147483648 = 8388608 * ((u div 8388608) mod 256) + u mod 8388608"
  using mod_mult2_eq[of u 8388608 256] by simp

lemma zero_bits_nat:
  fixes u :: nat
  assumes "u < 4294967296"
  shows "((u div 8388608) mod 256 = 0 \<and> u mod 8388608 = 0) \<longleftrightarrow> (u = 0 \<or> u = 2147483648)"
proof -
  have a: "((u div 8388608) mod 256 = 0 \<and> u mod 8388608 = 0) \<longleftrightarrow> u mod 2147483648 = 0"
    by (simp add: split31)
  have "u = 2147483648 * (u div 2147483648) + u mod 2147483648" by simp
  moreover have "u div 2147483648 < 2" using assms by (simp add: less_mult_imp_div_less)
  ultimately have b: "u mod 2147483648 = 0 \<longleftrightarrow> (u = 0 \<or> u = 2147483648)"
    by (cases "u div 2147483648 = 0") auto
  show ?thesis using a b by simp
qed

lemma nan_bits_nat:
  fixes u :: nat
  shows "((u div 8388608) mod 256 = 255 \<and> u mod 8388608 \<noteq> 0) \<longleftrightarrow> 2139095040 < u mod 2147483648"
proof -
  define e where "e = (u div 8388608) mod 256"
  define m where "m = u mod 8388608"
  have b: "e < 256" "m < 8388608" by (simp_all add: e_def m_def)
  have "(e = 255 \<and> m \<noteq> 0) \<longleftrightarrow> 2139095040 < 8388608 * e + m"
    using b by linarith
  then show ?thesis by (simp add: split31 e_def m_def)
qed

lemma float_to_bool_bits:
  "float_to_bool v \<longleftrightarrow> bits v \<noteq> 0 \<and> bits v \<noteq> 0x80000000"
proof -
  have b: "unat (bits v) < 4294967296" using unsigned_less[of "bits v"] by simp
  have 1: "unat (bits v) = 0 \<longleftrightarrow> bits v = 0" by (simp add: unat_eq_0)
  have 2: "unat (bits v) = 2147483648 \<longleftrightarrow> bits v = 0x80000000"
    by (simp add: word_unat_eq_iff)
  show ?thesis
    using zero_bits_nat[OF b] 1 2 by (simp add: float_to_bool_def exponent_def fraction_def)
qed

lemma isnan_bits: "isnan y \<longleftrightarrow> 2139095040 < unat (bits y) mod 2147483648"
  using nan_bits_nat[of "unat (bits y)"] by (simp add: isnan_def exponent_def fraction_def)

lemma Layer_reset_case:
  "Layer_reset l = (case l of LGRU g \<Rightarrow> LGRU (g\<lparr>gru_h := replicate (out_size g) (Float 0)\<rparr>) | _ \<Rightarrow> l)"
  by (cases l) (simp_all add: GRU_reset_def zero_float_def)

lemma Model_reset_explicit:
  "Model_reset m = m\<lparr>layers := map (\<lambda>l. case l of LGRU g \<Rightarrow> LGRU (g\<lparr>gru_h := replicate (out_size g) (Float 0)\<rparr>) | _ \<Rightarrow> l) (layers m)\<rparr>"
  by (simp add: Model_reset_def Layer_reset_case[abs_def])

lemma read_input_explicit:
  "read_input inputs = [getVoltage (inputs IN1), getVoltage (inputs IN2), getVoltage (inputs IN3), getVoltage (inputs IN4)]"
  by (simp add: read_input_def input_ids_def)

text \<open>
  C5.  On the module's topology every call of \<open>process\<close> is the following sequence, each
  step working on what the steps before it produced.  (1) If the randomise parameter is
  not \<open>+0\<close> or \<open>-0\<close>, the twelve weight tensors of the model are overwritten with the
  generator's draws; otherwise the module is left as it is.  (2) The input vector is the
  voltages of the four inputs, in port order.  (3) \<open>forward\<close> runs on the model of step 1
  with the vector of step 2.  (4) The instability check looks at the value \<open>forward\<close>
  returned: if it is a NaN (its bits without the sign are above those of infinity) the
  value becomes \<open>0.0f\<close> and every hidden state of the model \<open>forward\<close> left is set to
  zero; otherwise both are kept.  (5) The post-filter, set to a highpass at
  \<open>30.0f / sampleRate\<close> with quality \<open>M_SQRT1_2\<close> and gain \<open>1.0f\<close>, is run from the
  state the module held on the value of step 4.  (6) The makeup gain is \<open>4.0f\<close> divided by
  the number of connected inputs, floored at 1.  (7) The voltage emitted is the filter's
  output times the gain; the module keeps the model of step 4 and the filter's new state.
\<close>

theorem process_order:
  assumes "layers (model s) = [LDense d1, l1, LGRU g, LDense d2]"
  shows "process P args params inputs s =
     (let triggered = (bits (params RANDOM_PARAM) \<noteq> 0 \<and> bits (params RANDOM_PARAM) \<noteq> 0x80000000);
          r0 = rando s;
          w1 = fst (random_mat r0 (dense_W d1)); r1 = skip (length (concat (dense_W d1))) r0;
          c1 = map r1 [0..<length (dense_b d1)]; r2 = skip (length (dense_b d1)) r1;
          wr = fst (random_mat r2 (W_r g)); r3 = skip (length (concat (W_r g))) r2;
          wz = fst (random_mat r3 (W_z g)); r4 = skip (length (concat (W_z g))) r3;
          wn = fst (random_mat r4 (W_n g)); r5 = skip (length (concat (W_n g))) r4;
          ur = fst (random_mat r5 (U_r g)); r6 = skip (length (concat (U_r g))) r5;
          uz = fst (random_mat r6 (U_z g)); r7 = skip (length (concat (U_z g))) r6;
          un = fst (random_mat r7 (U_n g)); r8 = skip (length (concat (U_n g))) r7;
          br = map r8 [0..<length (b_r g)]; r9 = skip (length (b_r g)) r8;
          bz = map r9 [0..<length (b_z g)]; r10 = skip (length (b_z g)) r9;
          bn = map r10 [0..<length (b_n g)]; r11 = skip (length (b_n g)) r10;
          w2 = fst (random_mat r11 (dense_W d2)); r12 = skip (length (concat (dense_W d2))) r11;
          s1 = (if triggered
                then s\<lparr>model := (model s)\<lparr>layers :=
                         [LDense (d1\<lparr>dense_W := w1, dense_b := c1\<rparr>), l1,
                          LGRU (g\<lparr>W_r := wr, W_z := wz, W_n := wn, U_r := ur, U_z := uz,
                                  U_n := un, b_r := br, b_z := bz, b_n := bn\<rparr>),
                          LDense (d2\<lparr>dense_W := w2\<rparr>)]\<rparr>,
                       rando := r12\<rparr>
                else s);
          input = [getVoltage (inputs IN1), getVoltage (inputs IN2),
                   getVoltage (inputs IN3), getVoltage (inputs IN4)];
          ym = forward P (model s1) input;
          nan = (2139095040 < unat (bits (fst ym)) mod 2147483648);
          y1 = (if nan then Float 0 else fst ym);
          m1 = (if nan
                then (snd ym)\<lparr>layers :=
                       map (\<lambda>l. case l of
                                   LGRU g' \<Rightarrow> LGRU (g'\<lparr>gru_h := replicate (out_size g') (Float 0)\<rparr>)
                                 | _ \<Rightarrow> l)
                           (layers (snd ym))\<rparr>
                else snd ym);
          filtered = bq_process P
                       (setParameters P HIGHPASS (fdiv P (Float 0x41F00000) (sampleRate args))
                          (Float 0x3F3504F3) (Float 0x3F800000) (dcBlocker s1))
                       y1;
          gain = fdiv P (Float 0x40800000)
                   (int_to_float P (max (int (card {i. isConnected (inputs i)})) 1))
      in (fmul P (fst filtered) gain, s1\<lparr>model := m1, dcBlocker := snd filtered\<rparr>))"
proof -
  have t: "randomise_if_triggered params s =
     (if bits (params RANDOM_PARAM) \<noteq> 0 \<and> bits (params RANDOM_PARAM) \<noteq> 0x80000000
      then randomiseModel s else s)"
    by (simp add: randomise_if_triggered_def float_to_bool_bits)
  show ?thesis
    unfolding process_stages t randomise_explicit[OF assms] instability_check_def isnan_bits
      Model_reset_explicit read_input_explicit post_filter_def makeup_gain_def
      num_connected_card f_0_def f_1_def f_4_def f_30_def f_SQRT1_2_def Let_def
    by (simp add: Let_def)
qed

lemma random_mat_first: "fst (random_mat r ((a # row) # rows)) ! 0 ! 0 = r 0"
  by (simp add: split_def random_vec_def Let_def upt_rec)

lemma alloc_vec_Suc: "alloc_vec mem off (Suc n) = mem off # alloc_vec mem (Suc off) n"
  by (simp add: alloc_vec_def upt_rec[of 0] map_Suc_upt[symmetric] del: upt_Suc)

lemma alloc_mat_Suc: "alloc_mat mem off (Suc n) cols = alloc_vec mem off cols # alloc_mat mem (off + cols) n cols"
  by (simp add: alloc_mat_def upt_rec[of 0] map_Suc_upt[symmetric] add.assoc del: upt_Suc)

lemma dense_W_new_Dense_4:
  "dense_W (new_Dense mem 4 4) =
     (mem 0 # alloc_vec mem (Suc 0) 3) # alloc_mat mem 4 3 4"
proof -
  have 4: "(4::nat) = Suc 3" by simp
  have "alloc_mat mem 0 4 4 = alloc_vec mem 0 4 # alloc_mat mem (0 + 4) 3 4"
    by (subst 4) (rule alloc_mat_Suc)
  moreover have "alloc_vec mem 0 4 = mem 0 # alloc_vec mem (Suc 0) 3"
    by (subst 4) (rule alloc_vec_Suc)
  ultimately show ?thesis by (simp add: new_Dense_def)
qed

lemma first_weight_randomised:
  "fst (random_mat r (dense_W (new_Dense mem 4 4))) ! 0 ! 0 = r 0"
  by (simp only: dense_W_new_Dense_4 random_mat_first)

lemma first_weight_s0: "first_weight (model s0) = f_1"
proof -
  have "layers (model s0) ! 0 = LDense (new_Dense (heap0 0) 4 4)"
    by (simp add: s0_def ChowRNN_new_layers)
  then have "first_weight (model s0) = dense_W (new_Dense (heap0 0) 4 4) ! 0 ! 0"
    by (simp add: first_weight_def)
  also have "\<dots> = heap0 0 0"
    by (simp only: dense_W_new_Dense_4 nth_Cons_0)
  finally show ?thesis by (simp add: heap0_def)
qed

lemma card_inputs0: "int (card {i. isConnected (inputs0 i)}) = 4"
  using num_connected_card[of inputs0] by (simp add: num_connected_inputs0)

theorem process_order_witness:
  "layers (model s0) =
     [LDense (new_Dense (heap0 0) 4 4), LTanh 4,
      LGRU (GRU_reset (new_GRULayer (heap0 1) 4 4)),
      LDense ((new_Dense (heap0 2) 4 1)\<lparr>dense_b := [0]\<rparr>)]
   \<and> first_weight (model s0) = f_1
   \<and> fst (process echo args0 params0 inputs0 s0) = f_1
   \<and> fst (process echo args0 params1 inputs0 s0) = f_4
   \<and> dcBlocker (snd (process echo args0 params1 inputs0 s0)) = f_4
   \<and> map hidden_state (layers (model (snd (process echo args0 params1 inputs0 s0))))
       = [None, None, Some [f_1, f_1, f_1, f_1], None]
   \<and> dcBlocker (snd (process (probe f_nan ones) args0 params0 inputs0 (s0\<lparr>dcBlocker := f_4\<rparr>)))
       = f_0
   \<and> map hidden_state
         (layers (model (snd (process (probe f_nan ones) args0 params0 inputs0
                                (s0\<lparr>dcBlocker := f_4\<rparr>)))))
       = [None, None, Some [Float 0, Float 0, Float 0, Float 0], None]"
proof -
  have a: "layers (model s0) =
     [LDense (new_Dense (heap0 0) 4 4), LTanh 4,
      LGRU (GRU_reset (new_GRULayer (heap0 1) 4 4)),
      LDense ((new_Dense (heap0 2) 4 1)\<lparr>dense_b := [0]\<rparr>)]"
    by (simp add: s0_def ChowRNN_new_layers)
  have r: "rando s0 = rng0" by (simp add: s0_def ChowRNN_new_eq)
  have b0: "bits (params0 RANDOM_PARAM) = 0" by (simp add: params0_def f_0_def)
  have b1: "bits (params1 RANDOM_PARAM) \<noteq> 0 \<and> bits (params1 RANDOM_PARAM) \<noteq> 0x80000000"
    by (simp add: params1_def f_1_def)
  have fw: "forward echo = (\<lambda>m x. (first_weight m, commit_hidden x m))"
    and bq: "bq_process echo = (\<lambda>bq x. (x, x))"
    and sp: "setParameters echo = (\<lambda>t f q g bq. bq)"
    by (simp_all add: echo_def)
  have gain: "fdiv echo (Float 0x40800000) (int_to_float echo 4) = f_1"
    by (simp add: echo_def f_4_def)
  have mul: "fmul echo v f_1 = v" for v
    by (simp add: echo_def)
  have n1: "\<not> 2139095040 < unat (bits f_1) mod 2147483648"
    and n4: "\<not> 2139095040 < unat (bits f_4) mod 2147483648"
    by (simp_all add: f_1_def f_4_def)
  have iv: "getVoltage (inputs0 i) = f_1" for i
    by (simp add: inputs0_def)
  have w0: "first_weight (model s0) = f_1" by (rule first_weight_s0)
  have w1: "first_weight ((model s0)\<lparr>layers :=
              LDense ((new_Dense (heap0 0) 4 4)\<lparr>dense_W :=
                  fst (random_mat rng0 (dense_W (new_Dense (heap0 0) 4 4))), dense_b := c\<rparr>)
              # rest\<rparr>) = f_4" for c rest
    by (simp add: first_weight_def first_weight_randomised rng0_def)
  have p0: "process echo args0 params0 inputs0 s0 =
              (f_1, s0\<lparr>model := commit_hidden
                        [getVoltage (inputs0 IN1), getVoltage (inputs0 IN2),
                         getVoltage (inputs0 IN3), getVoltage (inputs0 IN4)] (model s0),
                      dcBlocker := f_1\<rparr>)"
    using n1 by (simp add: process_order[OF a] Let_def b0 fw bq sp w0 card_inputs0 gain mul)
  have p1: "fst (process echo args0 params1 inputs0 s0) = f_4
          \<and> dcBlocker (snd (process echo args0 params1 inputs0 s0)) = f_4
          \<and> map hidden_state (layers (model (snd (process echo args0 params1 inputs0 s0))))
              = [None, None, Some [f_1, f_1, f_1, f_1], None]"
    using n4 b1
    by (simp add: process_order[OF a] Let_def r fw bq sp w1 card_inputs0 gain mul
        commit_hidden_def set_layer_def iv)
  have a': "layers (model (s0\<lparr>dcBlocker := f_4\<rparr>)) =
     [LDense (new_Dense (heap0 0) 4 4), LTanh 4,
      LGRU (GRU_reset (new_GRULayer (heap0 1) 4 4)),
      LDense ((new_Dense (heap0 2) 4 1)\<lparr>dense_b := [0]\<rparr>)]"
    using a by simp
  have nn: "2139095040 < unat (bits f_nan) mod 2147483648"
    by (simp add: f_nan_def)
  have pf: "forward (probe f_nan ones) = (\<lambda>m x. (f_nan, commit_hidden ones m))"
    and pb: "bq_process (probe f_nan ones) = (\<lambda>bq x. (bq, x))"
    and ps: "setParameters (probe f_nan ones) = (\<lambda>t f q g bq. bq)"
    by (simp_all add: probe_def)
  have pg: "fdiv (probe f_nan ones) (Float 0x40800000) (int_to_float (probe f_nan ones) 4) = f_1"
    by (simp add: probe_def f_4_def)
  have pm: "fmul (probe f_nan ones) v f_1 = v" for v
    by (simp add: probe_def)
  have p2': "process (probe f_nan ones) args0 params0 inputs0 (s0\<lparr>dcBlocker := f_4\<rparr>) =
     (f_4, s0\<lparr>model := (commit_hidden ones (model s0))\<lparr>layers :=
                   map (\<lambda>l. case l of
                               LGRU g' \<Rightarrow> LGRU (g'\<lparr>gru_h := replicate (out_size g') (Float 0)\<rparr>)
                             | _ \<Rightarrow> l)
                       (layers (commit_hidden ones (model s0)))\<rparr>,
                dcBlocker := Float 0\<rparr>)"
    using nn by (simp add: process_order[OF a'] Let_def b0 pf pb ps card_inputs0 pg pm)
  have l2: "layers (commit_hidden ones (model s0)) =
        [LDense (new_Dense (heap0 0) 4 4),
         LTanh 4,
         LGRU ((GRU_reset (new_GRULayer (heap0 1) 4 4))\<lparr>gru_h := ones\<rparr>),
         LDense ((new_Dense (heap0 2) 4 1)\<lparr>dense_b := [0]\<rparr>)]"
    by (simp only: s0_def commit_s0)
  have o4: "out_size (GRU_reset (new_GRULayer mem 4 4)) = Suc (Suc (Suc (Suc 0)))" for mem :: "nat \<Rightarrow> float"
    by (simp add: GRU_reset_def new_GRULayer_def Let_def)
  have p2: "dcBlocker (snd (process (probe f_nan ones) args0 params0 inputs0 (s0\<lparr>dcBlocker := f_4\<rparr>)))
       = f_0
   \<and> map hidden_state
         (layers (model (snd (process (probe f_nan ones) args0 params0 inputs0
                                (s0\<lparr>dcBlocker := f_4\<rparr>)))))
       = [None, None, Some [Float 0, Float 0, Float 0, Float 0], None]"
    by (simp only: p2' l2) (simp add: o4 f_0_def)
  show ?thesis using a w0 p0 p1 p2 by simp
qed

text \<open>
  C6.  The voltage \<open>process\<close> emits is the post-filter's output times the makeup gain
  \<open>4.0f / (float) max(numConnected, 1)\<close>, where \<open>numConnected\<close> is the number of
  connected inputs.  The integer divisor is at least 1 (and at most 4) on every call,
  and it is 1 when no input is connected: the division is never by zero.  The division
  itself is the platform's \<open>float\<close> division.
\<close>

theorem makeup_gain_floor:
  "fst (process P args params inputs s) =
     fmul P (fst (post_filter P args (dcBlocker (randomise_if_triggered params s))
                   (fst (instability_check
                          (forward P (model (randomise_if_triggered params s)) (read_input inputs))))))
            (fdiv P f_4 (int_to_float P (max (num_connected inputs) 1)))
   \<and> num_connected inputs = int (card {i. isConnected (inputs i)})
   \<and> 1 \<le> max (num_connected inputs) 1
   \<and> max (num_connected inputs) 1 \<le> 4
   \<and> max (num_connected (\<lambda>i. \<lparr>getVoltage = v i, isConnected = False\<rparr>)) 1 = 1"
proof -
  have "num_connected (\<lambda>i. \<lparr>getVoltage = v i, isConnected = False\<rparr>) = 0"
    by (simp add: num_connected_def)
  then show ?thesis
    using num_connected_bounds[of inputs] num_connected_card[of inputs]
    by (simp add: process_stages Let_def makeup_gain_def)
qed

lemma makeup_gain_probe: "makeup_gain (probe y hv) inputs0 = f_1"
  by (simp add: makeup_gain_def num_connected_inputs0 probe_def)

lemma not_triggered: "randomise_if_triggered params0 s = s"
  using f_0_class by (simp add: randomise_if_triggered_def params0_def)

lemma probe_forward: "forward (probe y hv) m x = (y, commit_hidden hv m)"
  by (simp add: probe_def)

lemma probe_filter: "post_filter (probe y hv) args bq x = (bq, x)"
  by (simp add: post_filter_def probe_def)

lemma hidden_Layer_reset: "hidden_state (Layer_reset l) = zero_state l"
  by (cases l) (simp_all add: GRU_reset_def)

lemma zero_Layer_reset: "zero_state (Layer_reset l) = zero_state l"
  by (cases l) (simp_all add: GRU_reset_def)

lemma Model_reset_hidden:
  "map hidden_state (layers (Model_reset m)) = map zero_state (layers (Model_reset m))"
  by (simp add: Model_reset_def hidden_Layer_reset zero_Layer_reset)

lemma onReset_hidden:
  "map hidden_state (layers (model (onReset s))) = map zero_state (layers (model (onReset s)))"
  by (simp add: onReset_def Model_reset_hidden)

text \<open>
  C1 (as amended).  When the value \<open>forward\<close> returns is a NaN, \<open>process\<close> feeds
  \<open>0.0f\<close> to the post-filter in its place and the model it keeps is the reset one.
  \<open>process\<close> has no failure result: it returns a voltage and a state on every call.
\<close>

theorem nan_guard:
  assumes "forward P (model (randomise_if_triggered params s)) (read_input inputs) = (y, m)"
      and "isnan y"
  shows "process P args params inputs s =
     (let s1 = randomise_if_triggered params s;
          filtered = post_filter P args (dcBlocker s1) f_0
      in (fmul P (fst filtered) (makeup_gain P inputs),
          s1\<lparr>model := Model_reset m, dcBlocker := snd filtered\<rparr>))"
  using assms by (simp add: process_stages instability_check_def Let_def)

theorem nan_guard_witness:
  "forward (probe f_nan ones) (model (randomise_if_triggered params0 s0)) (read_input inputs0)
     = (f_nan, commit_hidden ones (model s0))
   \<and> isnan f_nan
   \<and> process (probe f_nan ones) args0 params0 inputs0 s0
     = (f_0, s0\<lparr>model := Model_reset (commit_hidden ones (model s0)), dcBlocker := f_0\<rparr>)"
proof -
  have 1: "forward (probe f_nan ones) (model (randomise_if_triggered params0 s0)) (read_input inputs0)
     = (f_nan, commit_hidden ones (model s0))"
    by (simp add: probe_forward not_triggered)
  have 2: "isnan f_nan" using f_nan_class by simp
  have 3: "dcBlocker s0 = f_0" by (simp add: s0_def ChowRNN_new_eq)
  show ?thesis
    using nan_guard[OF 1 2, of args0] 1 2 3
    by (simp add: Let_def probe_filter makeup_gain_probe not_triggered) (simp add: probe_def)
qed

text \<open>
  C1 as stated fails for a value that is not finite but is no NaN either.  When
  \<open>forward\<close> returns \<open>+infinity\<close>, \<open>std::isnan\<close> is false: the post-filter is fed
  \<open>+infinity\<close>, not 0 (the delay filter's state after the call is what it was fed),
  and the model is not reset (the hidden state that \<open>forward\<close> committed is still
  there, where a reset would have left zeros).
\<close>

theorem nan_guard_counterexample:
  "\<not> isfinite (fst (forward (probe f_inf ones) (model (randomise_if_triggered params0 s0))
                      (read_input inputs0)))
   \<and> dcBlocker (snd (process (probe f_inf ones) args0 params0 inputs0 s0)) = f_inf
   \<and> f_inf \<noteq> f_0
   \<and> map hidden_state (layers (model (snd (process (probe f_inf ones) args0 params0 inputs0 s0))))
       = [None, None, Some [f_1, f_1, f_1, f_1], None]
   \<and> map zero_state (layers (model (snd (process (probe f_inf ones) args0 params0 inputs0 s0))))
       = [None, None, Some [0, 0, 0, 0], None]
   \<and> f_1 \<noteq> (0::float)"
proof -
  let ?r = "process (probe f_inf ones) args0 params0 inputs0 s0"
  have n: "\<not> isnan f_inf" "\<not> isfinite f_inf" using f_inf_class by simp_all
  have p: "?r = (f_0, s0\<lparr>model := commit_hidden ones (model s0), dcBlocker := f_inf\<rparr>)"
    using n by (simp add: process_stages Let_def not_triggered probe_forward probe_filter
        instability_check_def makeup_gain_probe s0_def ChowRNN_new_eq) (simp add: probe_def)
  have a: "dcBlocker (snd ?r) = f_inf"
    by (simp only: p) simp
  have b: "map hidden_state (layers (model (snd ?r))) = [None, None, Some [f_1, f_1, f_1, f_1], None]"
    by (simp only: p) (simp add: s0_def commit_s0 ones_def)
  have c: "map zero_state (layers (model (snd ?r))) = [None, None, Some [0, 0, 0, 0], None]"
    by (simp only: p)
      (simp add: s0_def commit_s0 GRU_reset_def new_GRULayer_def Let_def numeral_eq_Suc)
  have d: "f_inf \<noteq> f_0" "f_1 \<noteq> (0::float)"
    by (simp_all add: f_inf_def f_0_def f_1_def zero_float_def)
  have e: "\<not> isfinite (fst (forward (probe f_inf ones) (model (randomise_if_triggered params0 s0))
                      (read_input inputs0)))"
    using n by (simp add: probe_forward)
  show ?thesis using a b c d e by (intro conjI)
qed

text \<open>
  C7 (as amended).  In a sample where \<open>forward\<close> returns a NaN, the value emitted is the
  post-filter's response to the input \<open>0.0f\<close> times the makeup gain, and after the call
  every layer that has a hidden state holds the zero vector of its width.
\<close>

theorem nan_recovery:
  assumes "forward P (model (randomise_if_triggered params s)) (read_input inputs) = (y, m)"
      and "isnan y"
  shows "fst (process P args params inputs s) =
           fmul P (fst (post_filter P args (dcBlocker (randomise_if_triggered params s)) f_0))
                  (makeup_gain P inputs)
       \<and> map hidden_state (layers (model (snd (process P args params inputs s))))
         = map zero_state (layers (model (snd (process P args params inputs s))))"
  using assms by (simp add: process_stages instability_check_def Let_def Model_reset_hidden)

theorem nan_recovery_witness:
  "forward (probe f_nan ones) (model (randomise_if_triggered params0 s0)) (read_input inputs0)
     = (f_nan, commit_hidden ones (model s0))
   \<and> isnan f_nan
   \<and> fst (process (probe f_nan ones) args0 params0 inputs0 s0) = f_0
   \<and> map hidden_state (layers (model (snd (process (probe f_nan ones) args0 params0 inputs0 s0))))
       = [None, None, Some [0, 0, 0, 0], None]"
proof -
  have 1: "forward (probe f_nan ones) (model (randomise_if_triggered params0 s0)) (read_input inputs0)
     = (f_nan, commit_hidden ones (model s0))"
    by (simp add: probe_forward not_triggered)
  have 2: "isnan f_nan" using f_nan_class by simp
  have 3: "dcBlocker s0 = f_0" by (simp add: s0_def ChowRNN_new_eq)
  have 4: "snd (process (probe f_nan ones) args0 params0 inputs0 s0)
     = s0\<lparr>model := Model_reset (commit_hidden ones (model s0)), dcBlocker := f_0\<rparr>"
    using 2 by (simp add: process_stages Let_def not_triggered probe_forward probe_filter
        instability_check_def 3)
  have 5: "map zero_state (layers (Model_reset (commit_hidden ones (model s0))))
      = [None, None, Some [0, 0, 0, 0], None]"
    by (simp add: Model_reset_def s0_def commit_s0 GRU_reset_def new_GRULayer_def Let_def
        numeral_eq_Suc)
  show ?thesis
    using nan_recovery[OF 1 2, of args0] 1 2 3
    by (simp add: 4 5 probe_filter makeup_gain_probe not_triggered) (simp add: probe_def)
qed

text \<open>
  C7 as stated fails in two ways.  With a NaN from \<open>forward\<close> and a post-filter that
  remembers an earlier sample (here \<open>1.0f\<close>), the value emitted is the filter's response
  to 0, which is \<open>1.0f\<close> and not 0.  With \<open>+infinity\<close> from \<open>forward\<close>, which is not
  finite, the model is not reset and the hidden state after the call is not zero.
\<close>

theorem nan_recovery_counterexample:
  "isnan (fst (forward (probe f_nan ones) (model (randomise_if_triggered params0 (s0\<lparr>dcBlocker := f_1\<rparr>)))
                 (read_input inputs0)))
   \<and> fst (process (probe f_nan ones) args0 params0 inputs0 (s0\<lparr>dcBlocker := f_1\<rparr>)) = f_1
   \<and> f_1 \<noteq> f_0
   \<and> \<not> isfinite (fst (forward (probe f_inf ones) (model (randomise_if_triggered params0 s0))
                      (read_input inputs0)))
   \<and> map hidden_state (layers (model (snd (process (probe f_inf ones) args0 params0 inputs0 s0))))
       = [None, None, Some [f_1, f_1, f_1, f_1], None]
   \<and> f_1 \<noteq> (0::float)"
proof -
  let ?r = "process (probe f_inf ones) args0 params0 inputs0 s0"
  let ?s1 = "s0\<lparr>dcBlocker := f_1\<rparr>"
  have n: "\<not> isnan f_inf" "\<not> isfinite f_inf" "isnan f_nan"
    using f_inf_class f_nan_class by simp_all
  have p: "?r = (f_0, s0\<lparr>model := commit_hidden ones (model s0), dcBlocker := f_inf\<rparr>)"
    using n by (simp add: process_stages Let_def not_triggered probe_forward probe_filter
        instability_check_def makeup_gain_probe s0_def ChowRNN_new_eq) (simp add: probe_def)
  have q: "fst (process (probe f_nan ones) args0 params0 inputs0 ?s1) = f_1"
    using n by (simp add: process_stages Let_def not_triggered probe_forward probe_filter
        instability_check_def makeup_gain_probe) (simp add: probe_def)
  have a: "isnan (fst (forward (probe f_nan ones) (model (randomise_if_triggered params0 ?s1))
                 (read_input inputs0)))"
    using n by (simp add: probe_forward)
  have b: "map hidden_state (layers (model (snd ?r))) = [None, None, Some [f_1, f_1, f_1, f_1], None]"
    by (simp only: p) (simp add: s0_def commit_s0 ones_def)
  have d: "f_1 \<noteq> f_0" "f_1 \<noteq> (0::float)"
    by (simp_all add: f_0_def f_1_def zero_float_def)
  have e: "\<not> isfinite (fst (forward (probe f_inf ones) (model (randomise_if_triggered params0 s0))
                      (read_input inputs0)))"
    using n by (simp add: probe_forward)
  show ?thesis using a q b d e by (intro conjI)
qed

section \<open>Saving and loading the weights\<close>

lemma refill_concat: "shape M' = shape M \<Longrightarrow> refill M' (concat M) = M"
proof (induction M' arbitrary: M)
  case Nil
  then show ?case by (simp add: shape_def)
next
  case (Cons row' M')
  then obtain row rest where M: "M = row # rest" by (cases M) (auto simp: shape_def)
  with Cons.prems have "length row' = length row" "shape M' = shape rest"
    by (simp_all add: shape_def)
  with Cons.IH[of rest] M show ?case by simp
qed

lemma shape_length_concat: "shape M' = shape M \<Longrightarrow> length (concat M') = length (concat M)"
  by (simp add: shape_def length_concat)

lemma load_mat_saved:
  assumes "shape M' = shape M"
  shows "load_mat (Some (JTensor sh (concat M))) sh M' = M"
proof -
  have "length (concat M) = length (concat M')"
    using shape_length_concat[OF assms] by simp
  then show ?thesis
    by (simp add: load_mat_def refill_concat[OF assms])
qed

lemma load_vec_saved:
  "length v' = length v \<Longrightarrow> load_vec (Some (JTensor sh v)) sh v' = v"
  by (simp add: load_vec_def)

lemma load_mat_None: "load_mat None sh M = M"
  by (simp add: load_mat_def)

lemma load_vec_None: "load_vec None sh v = v"
  by (simp add: load_vec_def)

lemma JsonToDense_DenseToJson:
  "same_shape_Dense d d' \<Longrightarrow>
   JsonToDense d' (DenseToJson d) = d'\<lparr>dense_W := dense_W d, dense_b := dense_b d\<rparr>"
  by (simp add: same_shape_Dense_def JsonToDense_def DenseToJson_def load_mat_saved load_vec_saved)

lemma JsonToGru_GruToJson:
  "same_shape_GRU g g' \<Longrightarrow>
   JsonToGru g' (GruToJson g) =
     g'\<lparr>W_r := W_r g, W_z := W_z g, W_n := W_n g, U_r := U_r g, U_z := U_z g, U_n := U_n g,
        b_r := b_r g, b_z := b_z g, b_n := b_n g\<rparr>"
  by (simp add: same_shape_GRU_def JsonToGru_def GruToJson_def load_mat_saved load_vec_saved)

lemma same_shape_Dense_refl: "same_shape_Dense d d"
  by (simp add: same_shape_Dense_def)

lemma same_shape_GRU_refl: "same_shape_GRU g g"
  by (simp add: same_shape_GRU_def)

lemma dataToJson_topology:
  "layers (model s) = [LDense d1, l1, LGRU g, LDense d2] \<Longrightarrow>
   dataToJson s = JObject [(''dense1'', DenseToJson d1), (''gru'', GruToJson g),
                           (''denseOut'', DenseToJson d2)]"
  by (simp add: dataToJson_def json_object_def Let_def)

lemma dataFromJson_topology:
  "layers (model s) = [LDense d1, l1, LGRU g, LDense d2] \<Longrightarrow>
   dataFromJson json s = s\<lparr>model := (model s)\<lparr>layers :=
      [LDense (case json_object_get json ''dense1'' of None \<Rightarrow> d1 | Some j \<Rightarrow> JsonToDense d1 j),
       l1,
       LGRU (case json_object_get json ''gru'' of None \<Rightarrow> g | Some j \<Rightarrow> JsonToGru g j),
       LDense (case json_object_get json ''denseOut'' of None \<Rightarrow> d2 | Some j \<Rightarrow> JsonToDense d2 j)]\<rparr>\<rparr>"
  by (simp add: dataFromJson_def set_layer_def Let_def split: option.splits)

lemma same_shape_new_Dense: "same_shape_Dense (new_Dense mem i out) (new_Dense mem' i out)"
  by (simp add: same_shape_Dense_def new_Dense_def shape_alloc_mat length_alloc_vec)

lemma same_shape_new_GRULayer:
  "same_shape_GRU (GRU_reset (new_GRULayer mem i out)) (GRU_reset (new_GRULayer mem' i out))"
  by (simp add: same_shape_GRU_def new_GRULayer_def GRU_reset_def Let_def shape_alloc_mat
      length_alloc_vec)

lemma same_shape_output_Dense:
  "same_shape_Dense ((new_Dense mem 4 1)\<lparr>dense_b := [0]\<rparr>) ((new_Dense mem' 4 1)\<lparr>dense_b := [0]\<rparr>)"
  by (simp add: same_shape_Dense_def new_Dense_def shape_alloc_mat)

text \<open>
  C3.  On the module's topology, loading the document that \<open>dataToJson\<close> produced
  gives back the module it was saved from, unchanged; and loaded into any module whose
  three weight-bearing layers have the same shapes, it makes the weight matrices and
  biases of the first affine layer, of the recurrent layer and of the output affine layer
  equal, element for element, to those of the module that was saved, and changes nothing
  else.  The document holds the \<open>float\<close> values themselves, so no assumption on the
  values is needed.
\<close>

theorem save_load_roundtrip:
  assumes "layers (model s) = [LDense d1, l1, LGRU g, LDense d2]"
      and "layers (model s') = [LDense d1', l1', LGRU g', LDense d2']"
      and "same_shape_Dense d1 d1'" and "same_shape_GRU g g'" and "same_shape_Dense d2 d2'"
  shows "dataFromJson (dataToJson s) s = s
       \<and> dataFromJson (dataToJson s) s' = s'\<lparr>model := (model s')\<lparr>layers :=
            [LDense (d1'\<lparr>dense_W := dense_W d1, dense_b := dense_b d1\<rparr>),
             l1',
             LGRU (g'\<lparr>W_r := W_r g, W_z := W_z g, W_n := W_n g,
                      U_r := U_r g, U_z := U_z g, U_n := U_n g,
                      b_r := b_r g, b_z := b_z g, b_n := b_n g\<rparr>),
             LDense (d2'\<lparr>dense_W := dense_W d2, dense_b := dense_b d2\<rparr>)]\<rparr>\<rparr>"
proof
  have "dataFromJson (dataToJson s) s = s\<lparr>model := (model s)\<lparr>layers :=
            [LDense d1, l1, LGRU g, LDense d2]\<rparr>\<rparr>"
    by (simp add: dataToJson_topology[OF assms(1)] dataFromJson_topology[OF assms(1)]
        JsonToDense_DenseToJson[OF same_shape_Dense_refl]
        JsonToGru_GruToJson[OF same_shape_GRU_refl])
  then show "dataFromJson (dataToJson s) s = s"
    by (simp add: assms(1)[symmetric])
  show "dataFromJson (dataToJson s) s' = s'\<lparr>model := (model s')\<lparr>layers :=
            [LDense (d1'\<lparr>dense_W := dense_W d1, dense_b := dense_b d1\<rparr>),
             l1',
             LGRU (g'\<lparr>W_r := W_r g, W_z := W_z g, W_n := W_n g,
                      U_r := U_r g, U_z := U_z g, U_n := U_n g,
                      b_r := b_r g, b_z := b_z g, b_n := b_n g\<rparr>),
             LDense (d2'\<lparr>dense_W := dense_W d2, dense_b := dense_b d2\<rparr>)]\<rparr>\<rparr>"
    by (simp add: dataToJson_topology[OF assms(1)] dataFromJson_topology[OF assms(2)]
        JsonToDense_DenseToJson[OF assms(3)] JsonToDense_DenseToJson[OF assms(5)]
        JsonToGru_GruToJson[OF assms(4)])
qed

theorem save_load_roundtrip_witness:
  "layers (model s0) =
     [LDense (new_Dense (heap0 0) 4 4), LTanh 4,
      LGRU (GRU_reset (new_GRULayer (heap0 1) 4 4)),
      LDense ((new_Dense (heap0 2) 4 1)\<lparr>dense_b := [0]\<rparr>)]
   \<and> layers (model t0) =
     [LDense (new_Dense (heap4 0) 4 4), LTanh 4,
      LGRU (GRU_reset (new_GRULayer (heap4 1) 4 4)),
      LDense ((new_Dense (heap4 2) 4 1)\<lparr>dense_b := [0]\<rparr>)]
   \<and> same_shape_Dense (new_Dense (heap0 0) 4 4) (new_Dense (heap4 0) 4 4)
   \<and> same_shape_GRU (GRU_reset (new_GRULayer (heap0 1) 4 4)) (GRU_reset (new_GRULayer (heap4 1) 4 4))
   \<and> same_shape_Dense ((new_Dense (heap0 2) 4 1)\<lparr>dense_b := [0]\<rparr>)
                        ((new_Dense (heap4 2) 4 1)\<lparr>dense_b := [0]\<rparr>)
   \<and> dataFromJson (dataToJson s0) s0 = s0
   \<and> model (dataFromJson (dataToJson s0) t0) = model s0"
proof -
  have a: "layers (model s0) =
     [LDense (new_Dense (heap0 0) 4 4), LTanh 4,
      LGRU (GRU_reset (new_GRULayer (heap0 1) 4 4)),
      LDense ((new_Dense (heap0 2) 4 1)\<lparr>dense_b := [0]\<rparr>)]"
    by (simp add: s0_def ChowRNN_new_layers)
  have b: "layers (model t0) =
     [LDense (new_Dense (heap4 0) 4 4), LTanh 4,
      LGRU (GRU_reset (new_GRULayer (heap4 1) 4 4)),
      LDense ((new_Dense (heap4 2) 4 1)\<lparr>dense_b := [0]\<rparr>)]"
    by (simp add: t0_def ChowRNN_new_layers)
  note r = save_load_roundtrip[OF a b same_shape_new_Dense same_shape_new_GRULayer
      same_shape_output_Dense]
  have c: "model (dataFromJson (dataToJson s0) t0) = model s0"
    by (simp only: r) (simp add: s0_def t0_def ChowRNN_new_eq new_Dense_def new_GRULayer_def
        GRU_reset_def Let_def)
  show ?thesis
    using a b c r same_shape_new_Dense[of "heap0 0" 4 4 "heap4 0"]
      same_shape_new_GRULayer[of "heap0 1" 4 4 "heap4 1"]
      same_shape_output_Dense[of "heap0 2" "heap4 2"]
    by (intro conjI) simp_all
qed

text \<open>
  C4.  On the module's topology \<open>dataFromJson\<close> treats the three top-level keys
  independently: a layer whose key (\<open>dense1\<close>, \<open>gru\<close>, \<open>denseOut\<close>) is absent from
  the document is left exactly as it was, a layer whose key is present is loaded from the
  value of the key, and nothing else of the module changes.  \<open>dataFromJson\<close> has no
  failure result.
\<close>

theorem dataFromJson_absent_keys:
  assumes "layers (model s) = [LDense d1, l1, LGRU g, LDense d2]"
  shows "dataFromJson json s = s\<lparr>model := (model s)\<lparr>layers :=
      [LDense (case json_object_get json ''dense1'' of
                 None \<Rightarrow> d1 | Some dense1J \<Rightarrow> JsonToDense d1 dense1J),
       l1,
       LGRU (case json_object_get json ''gru'' of
               None \<Rightarrow> g | Some gruJ \<Rightarrow> JsonToGru g gruJ),
       LDense (case json_object_get json ''denseOut'' of
                 None \<Rightarrow> d2 | Some denseOutJ \<Rightarrow> JsonToDense d2 denseOutJ)]\<rparr>\<rparr>"
  using assms by (rule dataFromJson_topology)

theorem dataFromJson_absent_keys_witness:
  "layers (model s0) =
     [LDense (new_Dense (heap0 0) 4 4), LTanh 4,
      LGRU (GRU_reset (new_GRULayer (heap0 1) 4 4)),
      LDense ((new_Dense (heap0 2) 4 1)\<lparr>dense_b := [0]\<rparr>)]
   \<and> json_object_get doc_no_gru ''gru'' = None
   \<and> layers (model (dataFromJson doc_no_gru s0)) =
     [LDense (new_Dense (heap4 0) 4 4), LTanh 4,
      LGRU (GRU_reset (new_GRULayer (heap0 1) 4 4)),
      LDense (new_Dense (heap4 2) 4 1)]"
proof -
  have a: "layers (model s0) =
     [LDense (new_Dense (heap0 0) 4 4), LTanh 4,
      LGRU (GRU_reset (new_GRULayer (heap0 1) 4 4)),
      LDense ((new_Dense (heap0 2) 4 1)\<lparr>dense_b := [0]\<rparr>)]"
    by (simp add: s0_def ChowRNN_new_layers)
  have g: "json_object_get doc_no_gru ''gru'' = None"
    by (simp add: doc_no_gru_def)
  have d1: "json_object_get doc_no_gru ''dense1'' = Some (DenseToJson (new_Dense (heap4 0) 4 4))"
    by (simp add: doc_no_gru_def)
  have d2: "json_object_get doc_no_gru ''denseOut'' = Some (DenseToJson (new_Dense (heap4 2) 4 1))"
    by (simp add: doc_no_gru_def)
  have l1: "JsonToDense (new_Dense (heap0 0) 4 4) (DenseToJson (new_Dense (heap4 0) 4 4))
          = new_Dense (heap4 0) 4 4"
    using JsonToDense_DenseToJson[OF same_shape_new_Dense[of "heap4 0" 4 4 "heap0 0"]]
    by (simp add: new_Dense_def)
  have s: "same_shape_Dense (new_Dense (heap4 2) 4 1) ((new_Dense (heap0 2) 4 1)\<lparr>dense_b := [0]\<rparr>)"
    by (simp add: same_shape_Dense_def new_Dense_def shape_alloc_mat length_alloc_vec)
  have l2: "JsonToDense ((new_Dense (heap0 2) 4 1)\<lparr>dense_b := [0]\<rparr>)
              (DenseToJson (new_Dense (heap4 2) 4 1)) = new_Dense (heap4 2) 4 1"
    using JsonToDense_DenseToJson[OF s] by (simp add: new_Dense_def)
  have r: "layers (model (dataFromJson doc_no_gru s0)) =
     [LDense (new_Dense (heap4 0) 4 4), LTanh 4,
      LGRU (GRU_reset (new_GRULayer (heap0 1) 4 4)),
      LDense (new_Dense (heap4 2) 4 1)]"
    by (simp only: dataFromJson_absent_keys[OF a] g d1 d2 option.case l1 l2) simp
  show ?thesis using a g r by (intro conjI)
qed

section \<open>The equations of the recurrent layer\<close>

lemma shape_row: "shape M = replicate rows cols \<Longrightarrow> i < rows \<Longrightarrow> length (M ! i) = cols"
  by (metis length_map length_replicate nth_map nth_replicate shape_def)

lemma shape_rows: "shape M = replicate rows cols \<Longrightarrow> length M = rows"
  by (metis length_map length_replicate shape_def)

lemma matvec_nth:
  assumes "shape M = replicate rows cols" and "i < rows"
  shows "matvec ar M v ! i = dot ar (M ! i) v"
proof -
  have "i < length M" using assms shape_rows by metis
  then show ?thesis by (simp add: matvec_def)
qed

lemma length_matvec:
  assumes "shape M = replicate rows cols"
  shows "length (matvec ar M v) = rows"
  using shape_rows[OF assms] by (simp add: matvec_def)

lemma gate_nth:
  assumes "shape Wm = replicate out inn" and "shape Um = replicate out out"
      and "length bv = out" and "i < out"
  shows "vadd ar (vadd ar (matvec ar Wm x) (matvec ar Um hv)) bv ! i
         = a_add ar (a_add ar (dot ar (Wm ! i) x) (dot ar (Um ! i) hv)) (bv ! i)"
proof -
  have l1: "length (matvec ar Wm x) = out" by (rule length_matvec[OF assms(1)])
  have l2: "length (matvec ar Um hv) = out" by (rule length_matvec[OF assms(2)])
  show ?thesis
    using assms(3,4) l1 l2
    by (simp add: vadd_def matvec_nth[OF assms(1,4)] matvec_nth[OF assms(2,4)])
qed

lemma length_gate:
  assumes "shape Wm = replicate out inn" and "shape Um = replicate out out"
      and "length bv = out"
  shows "length (vadd ar (vadd ar (matvec ar Wm x) (matvec ar Um hv)) bv) = out"
  using assms(3) length_matvec[OF assms(1)] length_matvec[OF assms(2)]
  by (simp add: vadd_def)

lemma GRU_forward_fst:
  assumes wf: "GRU_wf g"
  shows "fst (GRU_forward ar g x) = map (h_t ar g x) [0..<out_size g]"
proof -
  let ?h = "gru_h g"
  let ?r = "map (a_sigmoid ar)
              (vadd ar (vadd ar (matvec ar (W_r g) x) (matvec ar (U_r g) ?h)) (b_r g))"
  let ?z = "map (a_sigmoid ar)
              (vadd ar (vadd ar (matvec ar (W_z g) x) (matvec ar (U_z g) ?h)) (b_z g))"
  let ?n = "map (a_tanh ar)
              (vadd ar (vadd ar (matvec ar (W_n g) x) (matvec ar (U_n g) (vmul ar ?r ?h)))
                 (b_n g))"
  let ?h' = "vadd ar (vmul ar (map (a_sub ar (a_one ar)) ?z) ?n) (vmul ar ?z ?h)"
  from wf have s:
    "shape (W_r g) = replicate (out_size g) (in_size g)"
    "shape (W_z g) = replicate (out_size g) (in_size g)"
    "shape (W_n g) = replicate (out_size g) (in_size g)"
    "shape (U_r g) = replicate (out_size g) (out_size g)"
    "shape (U_z g) = replicate (out_size g) (out_size g)"
    "shape (U_n g) = replicate (out_size g) (out_size g)"
    and b: "length (b_r g) = out_size g" "length (b_z g) = out_size g"
      "length (b_n g) = out_size g"
    and h: "length ?h = out_size g"
    by (simp_all add: GRU_wf_def)
  have lr: "length ?r = out_size g" by (simp add: length_gate[OF s(1) s(4) b(1)])
  have lz: "length ?z = out_size g" by (simp add: length_gate[OF s(2) s(5) b(2)])
  have ln: "length ?n = out_size g" by (simp add: length_gate[OF s(3) s(6) b(3)])
  have lh': "length ?h' = out_size g" using lz ln h by (simp add: vadd_def vmul_def)
  have r: "?r ! i = r_t ar g x i" if "i < out_size g" for i
    using that length_gate[OF s(1) s(4) b(1), of ar x ?h]
    by (simp add: gate_nth[OF s(1) s(4) b(1) that] r_t_def)
  have z: "?z ! i = z_t ar g x i" if "i < out_size g" for i
    using that length_gate[OF s(2) s(5) b(2), of ar x ?h]
    by (simp add: gate_nth[OF s(2) s(5) b(2) that] z_t_def)
  have rh: "vmul ar ?r ?h = map (\<lambda>j. a_mul ar (r_t ar g x j) (?h ! j)) [0..<out_size g]"
  proof (rule nth_equalityI)
    show "length (vmul ar ?r ?h)
          = length (map (\<lambda>j. a_mul ar (r_t ar g x j) (?h ! j)) [0..<out_size g])"
      using lr h by (simp add: vmul_def)
  next
    fix j assume "j < length (vmul ar ?r ?h)"
    then have j: "j < out_size g" using lr h by (simp add: vmul_def)
    have "vmul ar ?r ?h ! j = a_mul ar (?r ! j) (?h ! j)"
      using j lr h by (simp add: vmul_def)
    then show "vmul ar ?r ?h ! j
               = map (\<lambda>j. a_mul ar (r_t ar g x j) (?h ! j)) [0..<out_size g] ! j"
      using j by (simp add: r[OF j])
  qed
  have n: "?n ! i = n_t ar g x i" if "i < out_size g" for i
    using that length_gate[OF s(3) s(6) b(3), of ar x "vmul ar ?r ?h"]
    by (simp add: gate_nth[OF s(3) s(6) b(3) that] n_t_def rh[symmetric])
  have "?h' = map (h_t ar g x) [0..<out_size g]"
  proof (rule nth_equalityI)
    show "length ?h' = length (map (h_t ar g x) [0..<out_size g])" using lh' by simp
  next
    fix i assume "i < length ?h'"
    then have i: "i < out_size g" using lh' by simp
    have "?h' ! i = a_add ar (a_mul ar (a_sub ar (a_one ar) (?z ! i)) (?n ! i))
                             (a_mul ar (?z ! i) (?h ! i))"
      using i lz ln h by (simp add: vadd_def vmul_def)
    then show "?h' ! i = map (h_t ar g x) [0..<out_size g] ! i"
      using i by (simp add: h_t_def z[OF i] n[OF i])
  qed
  then show ?thesis by (simp add: GRU_forward_def Let_def)
qed

lemma foldl_add_real: "foldl (+) a vs = a + sum_list (vs :: real list)"
  by (induction vs arbitrary: a) simp_all

lemma dot_real: "dot real_arith u v = (\<Sum>j<min (length u) (length v). u ! j * v ! j)"
proof -
  have "dot real_arith u v = sum_list (map2 (*) u v)"
    by (simp add: dot_def real_arith_def foldl_add_real)
  also have "\<dots> = (\<Sum>j = 0..<length (map2 (*) u v). map2 (*) u v ! j)"
    by (rule sum_list_sum_nth)
  also have "\<dots> = (\<Sum>j = 0..<min (length u) (length v). u ! j * v ! j)"
    by (intro sum.cong) simp_all
  finally show ?thesis by (simp add: atLeast0LessThan)
qed

lemma sigmoid_0: "sigmoid 0 = 1 / 2"
  by (simp add: sigmoid_def)

lemma gate_real:
  fixes Wm Um :: "real list list"
  assumes "shape Wm = replicate out inn" and "shape Um = replicate out out"
      and "length x = inn" and "length hv = out" and "i < out"
  shows "a_add real_arith (a_add real_arith (dot real_arith (Wm ! i) x)
                                            (dot real_arith (Um ! i) hv)) c
         = (\<Sum>j<inn. Wm ! i ! j * x ! j) + (\<Sum>j<out. Um ! i ! j * hv ! j) + c"
proof -
  have 1: "dot real_arith (Wm ! i) x = (\<Sum>j<inn. Wm ! i ! j * x ! j)"
    using shape_row[OF assms(1,5)] assms(3) by (simp add: dot_real)
  have 2: "dot real_arith (Um ! i) hv = (\<Sum>j<out. Um ! i ! j * hv ! j)"
    using shape_row[OF assms(2,5)] assms(4) by (simp add: dot_real)
  show ?thesis by (simp add: 1 2) (simp add: real_arith_def)
qed

lemma r_t_real:
  assumes "GRU_wf g" and "length x = in_size g" and "i < out_size g"
  shows "r_t real_arith g x i =
           sigmoid ((\<Sum>j<in_size g. W_r g ! i ! j * x ! j)
                    + (\<Sum>j<out_size g. U_r g ! i ! j * gru_h g ! j) + b_r g ! i)"
proof -
  from assms(1) have s: "shape (W_r g) = replicate (out_size g) (in_size g)"
    "shape (U_r g) = replicate (out_size g) (out_size g)" "length (gru_h g) = out_size g"
    by (simp_all add: GRU_wf_def)
  have "r_t real_arith g x i = a_sigmoid real_arith
          ((\<Sum>j<in_size g. W_r g ! i ! j * x ! j)
           + (\<Sum>j<out_size g. U_r g ! i ! j * gru_h g ! j) + b_r g ! i)"
    by (simp only: r_t_def gate_real[OF s(1) s(2) assms(2) s(3) assms(3)])
  then show ?thesis by (simp add: real_arith_def)
qed

lemma z_t_real:
  assumes "GRU_wf g" and "length x = in_size g" and "i < out_size g"
  shows "z_t real_arith g x i =
           sigmoid ((\<Sum>j<in_size g. W_z g ! i ! j * x ! j)
                    + (\<Sum>j<out_size g. U_z g ! i ! j * gru_h g ! j) + b_z g ! i)"
proof -
  from assms(1) have s: "shape (W_z g) = replicate (out_size g) (in_size g)"
    "shape (U_z g) = replicate (out_size g) (out_size g)" "length (gru_h g) = out_size g"
    by (simp_all add: GRU_wf_def)
  have "z_t real_arith g x i = a_sigmoid real_arith
          ((\<Sum>j<in_size g. W_z g ! i ! j * x ! j)
           + (\<Sum>j<out_size g. U_z g ! i ! j * gru_h g ! j) + b_z g ! i)"
    by (simp only: z_t_def gate_real[OF s(1) s(2) assms(2) s(3) assms(3)])
  then show ?thesis by (simp add: real_arith_def)
qed

lemma n_t_real:
  assumes "GRU_wf g" and "length x = in_size g" and "i < out_size g"
  shows "n_t real_arith g x i =
           tanh ((\<Sum>j<in_size g. W_n g ! i ! j * x ! j)
                 + (\<Sum>j<out_size g. U_n g ! i ! j * (r_t real_arith g x j * gru_h g ! j))
                 + b_n g ! i)"
proof -
  let ?rh = "map (\<lambda>j. a_mul real_arith (r_t real_arith g x j) (gru_h g ! j)) [0..<out_size g]"
  from assms(1) have s: "shape (W_n g) = replicate (out_size g) (in_size g)"
    "shape (U_n g) = replicate (out_size g) (out_size g)"
    by (simp_all add: GRU_wf_def)
  have l: "length ?rh = out_size g" by simp
  have "n_t real_arith g x i = a_tanh real_arith
          ((\<Sum>j<in_size g. W_n g ! i ! j * x ! j)
           + (\<Sum>j<out_size g. U_n g ! i ! j * ?rh ! j) + b_n g ! i)"
    by (simp only: n_t_def gate_real[OF s(1) s(2) assms(2) l assms(3)])
  moreover have "(\<Sum>j<out_size g. U_n g ! i ! j * ?rh ! j)
                 = (\<Sum>j<out_size g. U_n g ! i ! j * (r_t real_arith g x j * gru_h g ! j))"
    by (rule sum.cong) (simp_all add: real_arith_def)
  ultimately show ?thesis by (simp add: real_arith_def)
qed

lemma h_t_real:
  "h_t real_arith g x i
   = (1 - z_t real_arith g x i) * n_t real_arith g x i + z_t real_arith g x i * gru_h g ! i"
  by (simp add: h_t_def) (simp add: real_arith_def)

text \<open>
  C2.  For a recurrent layer whose tensors have the shapes its widths give them,
  \<open>forward\<close> returns the vector \<open>h_t\<close> and leaves the layer with \<open>h_t\<close> as its hidden
  state and nothing else changed, where, component by component and in the arithmetic
  of the scalar type, \<open>h_t = (1 - z_t) * n_t + z_t * h\<close>,
  \<open>r_t = sigmoid (W_r x + U_r h + b_r)\<close>, \<open>z_t = sigmoid (W_z x + U_z h + b_z)\<close> and
  \<open>n_t = tanh (W_n x + U_n (r_t * h) + b_n)\<close>, \<open>h\<close> being the hidden state before the
  call (first conjunct, for every arithmetic, that of \<open>float\<close> included).  Over the real
  numbers, for an input of the layer's input width, these are the equations of the
  specification with exact sums and products (the other conjuncts).
\<close>

theorem GRU_forward_equations:
  assumes "GRU_wf g" and "GRU_wf gR" and "length xR = in_size gR"
  shows "GRU_forward ar g x =
           (map (h_t ar g x) [0..<out_size g], g\<lparr>gru_h := map (h_t ar g x) [0..<out_size g]\<rparr>)
       \<and> (\<forall>i<out_size gR. r_t real_arith gR xR i =
              1 / (1 + exp (- ((\<Sum>j<in_size gR. W_r gR ! i ! j * xR ! j)
                   + (\<Sum>j<out_size gR. U_r gR ! i ! j * gru_h gR ! j) + b_r gR ! i))))
       \<and> (\<forall>i<out_size gR. z_t real_arith gR xR i =
              1 / (1 + exp (- ((\<Sum>j<in_size gR. W_z gR ! i ! j * xR ! j)
                   + (\<Sum>j<out_size gR. U_z gR ! i ! j * gru_h gR ! j) + b_z gR ! i))))
       \<and> (\<forall>i<out_size gR. n_t real_arith gR xR i =
              tanh ((\<Sum>j<in_size gR. W_n gR ! i ! j * xR ! j)
                   + (\<Sum>j<out_size gR. U_n gR ! i ! j * (r_t real_arith gR xR j * gru_h gR ! j))
                   + b_n gR ! i))
       \<and> (\<forall>i<out_size gR. fst (GRU_forward real_arith gR xR) ! i =
              (1 - z_t real_arith gR xR i) * n_t real_arith gR xR i
              + z_t real_arith gR xR i * gru_h gR ! i)"
proof -
  have f: "fst (GRU_forward ar g x) = map (h_t ar g x) [0..<out_size g]"
    by (rule GRU_forward_fst[OF assms(1)])
  have c: "snd (GRU_forward ar g x) = g\<lparr>gru_h := fst (GRU_forward ar g x)\<rparr>"
    by (simp add: GRU_forward_def Let_def)
  have "GRU_forward ar g x = (fst (GRU_forward ar g x), snd (GRU_forward ar g x))" by simp
  then have 1: "GRU_forward ar g x =
           (map (h_t ar g x) [0..<out_size g], g\<lparr>gru_h := map (h_t ar g x) [0..<out_size g]\<rparr>)"
    by (simp only: c f)
  have 2: "\<forall>i<out_size gR. r_t real_arith gR xR i =
              1 / (1 + exp (- ((\<Sum>j<in_size gR. W_r gR ! i ! j * xR ! j)
                   + (\<Sum>j<out_size gR. U_r gR ! i ! j * gru_h gR ! j) + b_r gR ! i)))"
    using r_t_real[OF assms(2,3)] by (simp add: sigmoid_def)
  have 3: "\<forall>i<out_size gR. z_t real_arith gR xR i =
              1 / (1 + exp (- ((\<Sum>j<in_size gR. W_z gR ! i ! j * xR ! j)
                   + (\<Sum>j<out_size gR. U_z gR ! i ! j * gru_h gR ! j) + b_z gR ! i)))"
    using z_t_real[OF assms(2,3)] by (simp add: sigmoid_def)
  have 4: "\<forall>i<out_size gR. n_t real_arith gR xR i =
              tanh ((\<Sum>j<in_size gR. W_n gR ! i ! j * xR ! j)
                   + (\<Sum>j<out_size gR. U_n gR ! i ! j * (r_t real_arith gR xR j * gru_h gR ! j))
                   + b_n gR ! i)"
    using n_t_real[OF assms(2,3)] by simp
  have 5: "\<forall>i<out_size gR. fst (GRU_forward real_arith gR xR) ! i =
              (1 - z_t real_arith gR xR i) * n_t real_arith gR xR i
              + z_t real_arith gR xR i * gru_h gR ! i"
    by (simp add: GRU_forward_fst[OF assms(2)] h_t_real)
  show ?thesis using 1 2 3 4 5 by (intro conjI)
qed

theorem GRU_forward_equations_witness:
  "GRU_wf gru2 \<and> length x2 = in_size gru2
   \<and> r_t real_arith gru2 x2 0 = 1 / 2 \<and> r_t real_arith gru2 x2 (Suc 0) = sigmoid 4
   \<and> z_t real_arith gru2 x2 0 = 1 / 2 \<and> z_t real_arith gru2 x2 (Suc 0) = sigmoid 1
   \<and> n_t real_arith gru2 x2 0 = 0
   \<and> n_t real_arith gru2 x2 (Suc 0) = tanh (7 / 2 - sigmoid 4)
   \<and> GRU_forward real_arith gru2 x2 =
       ([1 / 2, (1 - sigmoid 1) * tanh (7 / 2 - sigmoid 4) - sigmoid 1],
        gru2\<lparr>gru_h := [1 / 2, (1 - sigmoid 1) * tanh (7 / 2 - sigmoid 4) - sigmoid 1]\<rparr>)"
proof -
  have w: "GRU_wf gru2" by (simp add: GRU_wf_def gru2_def shape_def numeral_2_eq_2)
  have l: "length x2 = in_size gru2" by (simp add: gru2_def x2_def)
  have r0: "r_t real_arith gru2 x2 0 = 1 / 2"
    by (simp add: r_t_def dot_def gru2_def x2_def real_arith_def sigmoid_0)
  have r1: "r_t real_arith gru2 x2 (Suc 0) = sigmoid 4"
    by (simp add: r_t_def dot_def gru2_def x2_def real_arith_def)
  have z0: "z_t real_arith gru2 x2 0 = 1 / 2"
    by (simp add: z_t_def dot_def gru2_def x2_def real_arith_def sigmoid_0)
  have z1: "z_t real_arith gru2 x2 (Suc 0) = sigmoid 1"
    by (simp add: z_t_def dot_def gru2_def x2_def real_arith_def)
  have o: "out_size gru2 = 2" by (simp add: gru2_def)
  have u: "[0..<2] = [0, Suc 0]" by (simp add: upt_rec)
  have rh: "map (\<lambda>j. a_mul real_arith (r_t real_arith gru2 x2 j) (gru_h gru2 ! j))
              [0..<out_size gru2] = [1 / 2, - sigmoid 4]"
    by (simp add: o u r0 r1) (simp add: gru2_def real_arith_def)
  have n0: "n_t real_arith gru2 x2 0 = 0"
    by (simp add: n_t_def rh) (simp add: dot_def gru2_def x2_def real_arith_def)
  have n1: "n_t real_arith gru2 x2 (Suc 0) = tanh (7 / 2 - sigmoid 4)"
    by (simp add: n_t_def rh) (simp add: dot_def gru2_def x2_def real_arith_def)
  have h0: "h_t real_arith gru2 x2 0 = 1 / 2"
    by (simp add: h_t_real z0 n0) (simp add: gru2_def)
  have h1: "h_t real_arith gru2 x2 (Suc 0)
            = (1 - sigmoid 1) * tanh (7 / 2 - sigmoid 4) - sigmoid 1"
    by (simp add: h_t_real z1 n1) (simp add: gru2_def)
  have hh: "map (h_t real_arith gru2 x2) [0..<out_size gru2]
            = [1 / 2, (1 - sigmoid 1) * tanh (7 / 2 - sigmoid 4) - sigmoid 1]"
    by (simp only: o u list.map h0 h1)
  from GRU_forward_equations[OF w w l, of real_arith x2]
  have "GRU_forward real_arith gru2 x2 =
          (map (h_t real_arith gru2 x2) [0..<out_size gru2],
           gru2\<lparr>gru_h := map (h_t real_arith gru2 x2) [0..<out_size gru2]\<rparr>)"
    by (rule conjunct1)
  then have f: "GRU_forward real_arith gru2 x2 =
       ([1 / 2, (1 - sigmoid 1) * tanh (7 / 2 - sigmoid 4) - sigmoid 1],
        gru2\<lparr>gru_h := [1 / 2, (1 - sigmoid 1) * tanh (7 / 2 - sigmoid 4) - sigmoid 1]\<rparr>)"
    by (simp only: hh)
  show ?thesis using w l r0 r1 z0 z1 n0 n1 f by (intro conjI)
qed

subsection \<open>The recurrent layer inside the model\<close>

lemma Model_forward_topology:
  assumes "layers m = [LDense d1, LTanh k, LGRU g, LDense d2]"
  shows "Model_forward ar m x =
     (let a = Tanh_forward ar (Dense_forward ar d1 x);
          hg = GRU_forward ar g a;
          out = Dense_forward ar d2 (fst hg)
      in (case out of [] \<Rightarrow> a_zero ar | v # _ \<Rightarrow> v,
          m\<lparr>layers := [LDense d1, LTanh k, LGRU (snd hg), LDense d2]\<rparr>))"
  using assms by (simp add: Model_forward_def Let_def split_def)

lemma Model_forward_hidden:
  assumes "layers m = [LDense d1, LTanh k, LGRU g, LDense d2]" and "GRU_wf g"
  shows "map hidden_state (layers (snd (Model_forward ar m x))) =
           [None, None,
            Some (map (h_t ar g (Tanh_forward ar (Dense_forward ar d1 x))) [0..<out_size g]),
            None]"
  using GRU_forward_fst[OF assms(2), of ar "Tanh_forward ar (Dense_forward ar d1 x)"]
  by (simp add: Model_forward_topology[OF assms(1)] Let_def GRU_forward_def)

lemma forward_with_Model_forward: "forward (with_Model_forward ar P) = Model_forward ar"
  by (simp add: with_Model_forward_def)

lemma process_Model_forward:
  assumes "layers (model (randomise_if_triggered params s)) = [LDense d1, LTanh k, LGRU g, LDense d2]"
      and "GRU_wf g"
      and "\<not> isnan (fst (Model_forward ar (model (randomise_if_triggered params s))
                            (read_input inputs)))"
  shows "map hidden_state
           (layers (model (snd (process (with_Model_forward ar P) args params inputs s)))) =
           [None, None,
            Some (map (h_t ar g (Tanh_forward ar (Dense_forward ar d1 (read_input inputs))))
                    [0..<out_size g]),
            None]"
  using assms(3) Model_forward_hidden[OF assms(1,2), of ar "read_input inputs"]
  by (simp add: process_stages Let_def instability_check_def forward_with_Model_forward)

end
